theory Spec2Isabelle
  imports Complex_Main "HOL-Library.AList" "HOL-Library.Log_Nat"
begin

section \<open>Overview\<close>

text \<open>
  The source is \<^verbatim>\<open>Banking_project.py\<close>. Amounts, balances, interest rates and
  overdraft limits are Python floats, that is IEEE 754 binary64 numbers; they are
  modelled by the type \<open>float\<close> of the next section, with the rounding, the infinities
  and the NaN of binary64. Identifiers are strings.

  The class hierarchy \<^verbatim>\<open>Account\<close> / \<^verbatim>\<open>SavingsAccount\<close> / \<^verbatim>\<open>CheckingAccount\<close> is a
  record with two extensions; an object of the abstract base, as the bank stores it, is a
  value of the sum type \<open>account\<close>, and a method call on it dispatches on the constructor.
\<close>

section \<open>Binary64 numbers\<close>

text \<open>
  A Python float is a binary64 number: a NaN, one of the two infinities, or a finite
  number \<open>m * 2 ^ e\<close> with an integer \<open>m\<close> of at most 53 bits. \<open>Finite m e\<close> is that
  finite number. The sign of a zero is not kept: \<open>0.0\<close> and \<open>-0.0\<close>, which \<^verbatim>\<open>==\<close> and
  the comparisons of the source do not tell apart, are one value.

  Every finite binary64 number has exactly one representation with \<open>- 1074 \<le> e \<le> 971\<close>
  and either \<open>2 ^ 52 \<le> \<bar>m\<bar> < 2 ^ 53\<close> (a normal number) or \<open>\<bar>m\<bar> < 2 ^ 52\<close> and
  \<open>e = - 1074\<close> (zero and the subnormal numbers). The arithmetic below returns this
  representation, so that equal numbers are equal terms.
\<close>

datatype float = Finite int int | PInf | NInf | NaN

fun is_binary64 :: "float \<Rightarrow> bool" where
  "is_binary64 (Finite m e) =
     (\<bar>m\<bar> < 2 ^ 53 \<and> - 1074 \<le> e \<and> e \<le> 971 \<and> (\<bar>m\<bar> < 2 ^ 52 \<longrightarrow> e = - 1074))"
| "is_binary64 PInf = True"
| "is_binary64 NInf = True"
| "is_binary64 NaN = True"

text \<open>The real number a finite float stands for.\<close>

definition dyadic :: "int \<Rightarrow> int \<Rightarrow> real" where
  "dyadic m e = of_int m * 2 powi e"

fun valof :: "float \<Rightarrow> real option" where
  "valof (Finite m e) = Some (dyadic m e)"
| "valof PInf = None"
| "valof NInf = None"
| "valof NaN = None"

subsection \<open>Rounding\<close>

text \<open>
  \<open>rne_shift M k\<close> is \<open>M / 2 ^ k\<close> rounded to the nearest integer, a tie going to the
  even one. \<open>round_float M e\<close> is the binary64 number nearest to \<open>M * 2 ^ e\<close> for any
  integers \<open>M\<close> and \<open>e\<close>, in the default rounding mode of IEEE 754 (to nearest, ties to
  even): \<open>round_shift\<close> is the number of low bits to drop, so that the mantissa has 53
  bits, or fewer where the exponent would fall below \<open>- 1074\<close> (a negative number of
  bits is a shift to the left, which is exact); \<open>round_mant\<close> is the mantissa after that;
  a mantissa that the rounding carries to \<open>2 ^ 53\<close> is renormalised; a result of
  magnitude \<open>2 ^ 1024\<close> or more is an infinity.
\<close>

definition rne_shift :: "int \<Rightarrow> nat \<Rightarrow> int" where
  "rne_shift M k =
     (if k = 0 then M
      else
        let q = M div 2 ^ k; r = M mod 2 ^ k; half = 2 ^ (k - 1)
        in if r < half then q
           else if half < r then q + 1
           else if even q then q else q + 1)"

definition round_shift :: "int \<Rightarrow> int \<Rightarrow> int" where
  "round_shift M e = max (bitlen \<bar>M\<bar> - 53) (- 1074 - e)"

definition round_mant :: "int \<Rightarrow> int \<Rightarrow> int" where
  "round_mant M e =
     (if round_shift M e \<le> 0 then M * 2 ^ nat (- round_shift M e)
      else rne_shift M (nat (round_shift M e)))"

definition round_float :: "int \<Rightarrow> int \<Rightarrow> float" where
  "round_float M e =
     (if M = 0 then Finite 0 (- 1074)
      else
        let M1 = round_mant M e;
            e1 = e + round_shift M e;
            M2 = (if \<bar>M1\<bar> = 2 ^ 53 then M1 div 2 else M1);
            e2 = (if \<bar>M1\<bar> = 2 ^ 53 then e1 + 1 else e1)
        in if e2 > 971 then (if M > 0 then PInf else NInf)
           else if M2 = 0 then Finite 0 (- 1074)
           else Finite M2 e2)"

subsection \<open>Constants and conversion\<close>

text \<open>
  \<open>fzero\<close> is the float \<open>0.0\<close> (and the integer \<open>0\<close> of the comparisons \<^verbatim>\<open>amount > 0\<close>,
  which Python compares with a float by value). \<open>one_percent\<close> is the float that the
  literal \<open>0.01\<close> denotes, the binary64 number nearest to \<open>1 / 100\<close>.
  \<open>float_of_int n\<close> is Python's \<^verbatim>\<open>float(n)\<close> for an integer of magnitude below
  \<open>2 ^ 1024\<close>; it writes the numbers of the examples.
\<close>

definition fzero :: float where
  "fzero = Finite 0 (- 1074)"

definition one_percent :: float where
  "one_percent = Finite 5764607523034235 (- 59)"

definition float_of_int :: "int \<Rightarrow> float" where
  "float_of_int n = round_float n 0"

subsection \<open>Arithmetic\<close>

text \<open>
  Sum and product of two finite floats are the exact sum and product, rounded; the
  exact sum is formed at the smaller of the two exponents, except that a zero operand
  leaves the other one as the exact sum. The other cases are those of IEEE 754: a NaN
  operand gives NaN, so do \<open>inf - inf\<close> and \<open>inf * 0\<close>.
\<close>

fun fneg :: "float \<Rightarrow> float" where
  "fneg (Finite m e) = Finite (- m) e"
| "fneg PInf = NInf"
| "fneg NInf = PInf"
| "fneg NaN = NaN"

fun fadd :: "float \<Rightarrow> float \<Rightarrow> float" where
  "fadd NaN b = NaN"
| "fadd a NaN = NaN"
| "fadd (Finite m1 e1) (Finite m2 e2) =
     (if m1 = 0 then round_float m2 e2
      else if m2 = 0 then round_float m1 e1
      else round_float
             (m1 * 2 ^ nat (e1 - min e1 e2) + m2 * 2 ^ nat (e2 - min e1 e2)) (min e1 e2))"
| "fadd (Finite m1 e1) b = b"
| "fadd a (Finite m2 e2) = a"
| "fadd PInf PInf = PInf"
| "fadd NInf NInf = NInf"
| "fadd PInf NInf = NaN"
| "fadd NInf PInf = NaN"

definition fsub :: "float \<Rightarrow> float \<Rightarrow> float" where
  "fsub a b = fadd a (fneg b)"

fun fsgn :: "float \<Rightarrow> int" where
  "fsgn (Finite m e) = sgn m"
| "fsgn PInf = 1"
| "fsgn NInf = - 1"
| "fsgn NaN = 0"

fun fmul :: "float \<Rightarrow> float \<Rightarrow> float" where
  "fmul NaN b = NaN"
| "fmul a NaN = NaN"
| "fmul (Finite m1 e1) (Finite m2 e2) = round_float (m1 * m2) (e1 + e2)"
| "fmul a b =
     (if fsgn a * fsgn b = 0 then NaN else if fsgn a * fsgn b > 0 then PInf else NInf)"

subsection \<open>Comparison\<close>

text \<open>
  \<open>fle a b\<close> is \<^verbatim>\<open>a <= b\<close> and \<open>flt a b\<close> is \<^verbatim>\<open>a < b\<close>: false when an operand is
  NaN, exact on the values otherwise.
\<close>

fun fle :: "float \<Rightarrow> float \<Rightarrow> bool" where
  "fle NaN b = False"
| "fle a NaN = False"
| "fle (Finite m1 e1) (Finite m2 e2) =
     (m1 * 2 ^ nat (e1 - min e1 e2) \<le> m2 * 2 ^ nat (e2 - min e1 e2))"
| "fle NInf b = True"
| "fle a PInf = True"
| "fle a b = False"

fun flt :: "float \<Rightarrow> float \<Rightarrow> bool" where
  "flt NaN b = False"
| "flt a NaN = False"
| "flt (Finite m1 e1) (Finite m2 e2) =
     (m1 * 2 ^ nat (e1 - min e1 e2) < m2 * 2 ^ nat (e2 - min e1 e2))"
| "flt PInf b = False"
| "flt a NInf = False"
| "flt a b = True"

section \<open>Accounts and customers\<close>

record Account =
  account_number :: string
  account_holder_id :: string
  balance :: float

record SavingsAccount = Account +
  interest_rate :: float

record CheckingAccount = Account +
  overdraft_limit :: float

datatype account = Savings SavingsAccount | Checking CheckingAccount

record Customer =
  customer_id :: string
  name :: string
  address :: string
  account_numbers :: "string list"

subsection \<open>Persisted records\<close>

text \<open>
  \<^verbatim>\<open>to_dict\<close> produces, and \<^verbatim>\<open>_load_data\<close> consumes, dictionaries with fixed string
  keys. A dictionary is modelled by a record with one optional field per key of the
  schema: \<open>None\<close> is an absent key, \<open>Some v\<close> a present key holding a value of the
  schema's type.
\<close>

record account_dict =
  d_type :: "string option"
  d_account_number :: "string option"
  d_account_holder_id :: "string option"
  d_balance :: "float option"
  d_interest_rate :: "float option"
  d_overdraft_limit :: "float option"

record customer_dict =
  d_customer_id :: "string option"
  d_name :: "string option"
  d_address :: "string option"
  d_account_numbers :: "string list option"

section \<open>Account operations\<close>

text \<open>
  A method that mutates its object and returns a flag is a function from the object to
  the flag and the object afterwards.
\<close>

definition SavingsAccount_deposit :: "SavingsAccount \<Rightarrow> float \<Rightarrow> bool \<times> SavingsAccount" where
  "SavingsAccount_deposit self amount =
     (if flt fzero amount then (True, self\<lparr>balance := fadd (balance self) amount\<rparr>)
      else (False, self))"

definition SavingsAccount_withdraw :: "SavingsAccount \<Rightarrow> float \<Rightarrow> bool \<times> SavingsAccount" where
  "SavingsAccount_withdraw self amount =
     (if flt fzero amount \<and> fle amount (balance self)
      then (True, self\<lparr>balance := fsub (balance self) amount\<rparr>)
      else (False, self))"

definition apply_interest :: "SavingsAccount \<Rightarrow> SavingsAccount" where
  "apply_interest self =
     self\<lparr>balance := fadd (balance self) (fmul (balance self) (interest_rate self))\<rparr>"

definition SavingsAccount_to_dict :: "SavingsAccount \<Rightarrow> account_dict" where
  "SavingsAccount_to_dict self =
     \<lparr>d_type = Some ''savings'',
      d_account_number = Some (account_number self),
      d_account_holder_id = Some (account_holder_id self),
      d_balance = Some (balance self),
      d_interest_rate = Some (interest_rate self),
      d_overdraft_limit = None\<rparr>"

definition CheckingAccount_deposit :: "CheckingAccount \<Rightarrow> float \<Rightarrow> bool \<times> CheckingAccount" where
  "CheckingAccount_deposit self amount =
     (if flt fzero amount then (True, self\<lparr>balance := fadd (balance self) amount\<rparr>)
      else (False, self))"

definition CheckingAccount_withdraw :: "CheckingAccount \<Rightarrow> float \<Rightarrow> bool \<times> CheckingAccount" where
  "CheckingAccount_withdraw self amount =
     (if fle (fneg (overdraft_limit self)) (fsub (balance self) amount)
      then (True, self\<lparr>balance := fsub (balance self) amount\<rparr>)
      else (False, self))"

definition CheckingAccount_to_dict :: "CheckingAccount \<Rightarrow> account_dict" where
  "CheckingAccount_to_dict self =
     \<lparr>d_type = Some ''checking'',
      d_account_number = Some (account_number self),
      d_account_holder_id = Some (account_holder_id self),
      d_balance = Some (balance self),
      d_interest_rate = None,
      d_overdraft_limit = Some (overdraft_limit self)\<rparr>"

text \<open>Dynamic dispatch on the class of the object, and the base class's properties.\<close>

fun deposit :: "account \<Rightarrow> float \<Rightarrow> bool \<times> account" where
  "deposit (Savings s) amount = map_prod id Savings (SavingsAccount_deposit s amount)"
| "deposit (Checking c) amount = map_prod id Checking (CheckingAccount_deposit c amount)"

fun withdraw :: "account \<Rightarrow> float \<Rightarrow> bool \<times> account" where
  "withdraw (Savings s) amount = map_prod id Savings (SavingsAccount_withdraw s amount)"
| "withdraw (Checking c) amount = map_prod id Checking (CheckingAccount_withdraw c amount)"

fun to_dict :: "account \<Rightarrow> account_dict" where
  "to_dict (Savings s) = SavingsAccount_to_dict s"
| "to_dict (Checking c) = CheckingAccount_to_dict c"

fun acc_number :: "account \<Rightarrow> string" where
  "acc_number (Savings s) = account_number s"
| "acc_number (Checking c) = account_number c"

fun acc_holder_id :: "account \<Rightarrow> string" where
  "acc_holder_id (Savings s) = account_holder_id s"
| "acc_holder_id (Checking c) = account_holder_id c"

fun acc_balance :: "account \<Rightarrow> float" where
  "acc_balance (Savings s) = balance s"
| "acc_balance (Checking c) = balance c"

subsection \<open>Sequences of calls on one account\<close>

datatype call = Deposit float | Withdraw float

fun call_amount :: "call \<Rightarrow> float" where
  "call_amount (Deposit amount) = amount"
| "call_amount (Withdraw amount) = amount"

fun do_call :: "account \<Rightarrow> call \<Rightarrow> account" where
  "do_call a (Deposit amount) = snd (deposit a amount)"
| "do_call a (Withdraw amount) = snd (withdraw a amount)"

fun do_calls :: "account \<Rightarrow> call list \<Rightarrow> account" where
  "do_calls a [] = a"
| "do_calls a (c # cs) = do_calls (do_call a c) cs"

text \<open>The balance floor of each variant.\<close>

fun balance_floor_ok :: "account \<Rightarrow> bool" where
  "balance_floor_ok (Savings s) = fle fzero (balance s)"
| "balance_floor_ok (Checking c) = fle (fneg (overdraft_limit c)) (balance c)"

section \<open>Customers\<close>

definition add_account_number :: "Customer \<Rightarrow> string \<Rightarrow> Customer" where
  "add_account_number self acc_num =
     (if acc_num \<notin> set (account_numbers self)
      then self\<lparr>account_numbers := account_numbers self @ [acc_num]\<rparr>
      else self)"

definition remove_account_number :: "Customer \<Rightarrow> string \<Rightarrow> Customer" where
  "remove_account_number self acc_num =
     (if acc_num \<in> set (account_numbers self)
      then self\<lparr>account_numbers := remove1 acc_num (account_numbers self)\<rparr>
      else self)"

definition Customer_to_dict :: "Customer \<Rightarrow> customer_dict" where
  "Customer_to_dict self =
     \<lparr>d_customer_id = Some (customer_id self),
      d_name = Some (name self),
      d_address = Some (address self),
      d_account_numbers = Some (account_numbers self)\<rparr>"

section \<open>The bank\<close>

text \<open>
  A Python \<^verbatim>\<open>dict\<close> keeps its keys in insertion order, and \<^verbatim>\<open>_save_data\<close> writes the
  values in that order. The two registries are therefore association lists:
  \<^verbatim>\<open>d.get(k)\<close> is \<^const>\<open>map_of\<close>, \<^verbatim>\<open>d[k] = v\<close> is \<^const>\<open>AList.update\<close> (an existing key
  keeps its place, a new key goes to the end), \<^verbatim>\<open>del d[k]\<close> is \<^const>\<open>AList.delete\<close> and
  \<^verbatim>\<open>d.values()\<close> is \<open>map snd\<close>.

  What \<^verbatim>\<open>open\<close> and \<^verbatim>\<open>json.load\<close> find under a file name is a \<open>json_file\<close>: no such file,
  a file that cannot be opened for reading, content that is not JSON, or a JSON list of
  dictionaries. The bank's two file names are modelled by the files they denote, so that
  \<^verbatim>\<open>_save_data\<close> is an update of the bank. Writing is taken to succeed.
\<close>

datatype 'r json_file = FileNotFound | NoPermission | NotJson | Records "'r list"

datatype error = PermissionError | JSONDecodeError | KeyError string

record Bank =
  customers :: "(string \<times> Customer) list"
  accounts :: "(string \<times> account) list"
  customer_file :: "customer_dict json_file"
  account_file :: "account_dict json_file"

subsection \<open>Loading\<close>

text \<open>
  One pass of the loop over \<^verbatim>\<open>customer_data\<close>: the three subscripts raise
  \<^verbatim>\<open>KeyError\<close> in the order they are evaluated, \<^verbatim>\<open>account_numbers\<close> defaults to the
  empty list.
\<close>

definition load_customer :: "customer_dict \<Rightarrow> error + Customer" where
  "load_customer cust =
     (case d_customer_id cust of
        None \<Rightarrow> Inl (KeyError ''customer_id'')
      | Some cid \<Rightarrow>
     (case d_name cust of
        None \<Rightarrow> Inl (KeyError ''name'')
      | Some n \<Rightarrow>
     (case d_address cust of
        None \<Rightarrow> Inl (KeyError ''address'')
      | Some ad \<Rightarrow>
          Inr (foldl add_account_number
                 \<lparr>customer_id = cid, name = n, address = ad, account_numbers = []\<rparr>
                 (case d_account_numbers cust of None \<Rightarrow> [] | Some acc_nums \<Rightarrow> acc_nums)))))"

fun load_customers ::
  "customer_dict list \<Rightarrow> (string \<times> Customer) list \<Rightarrow> error + (string \<times> Customer) list" where
  "load_customers [] cs = Inr cs"
| "load_customers (cust # customer_data) cs =
     (case load_customer cust of
        Inl e \<Rightarrow> Inl e
      | Inr c \<Rightarrow> load_customers customer_data (AList.update (customer_id c) c cs))"

text \<open>
  One pass of the loop over \<^verbatim>\<open>account_data\<close>. \<^verbatim>\<open>acc.pop('type')\<close> raises when the
  key is absent, the balance defaults to \<open>0.0\<close>, the interest rate to \<open>0.01\<close> and the
  overdraft limit to \<open>0.0\<close>. The result \<open>None\<close> is the \<^verbatim>\<open>continue\<close> of an unknown type.
\<close>

definition load_account :: "account_dict \<Rightarrow> error + account option" where
  "load_account acc =
     (case d_type acc of
        None \<Rightarrow> Inl (KeyError ''type'')
      | Some acc_type \<Rightarrow>
          let bal = (case d_balance acc of None \<Rightarrow> fzero | Some b \<Rightarrow> b) in
          if acc_type = ''savings'' then
            (case d_account_number acc of
               None \<Rightarrow> Inl (KeyError ''account_number'')
             | Some num \<Rightarrow>
            (case d_account_holder_id acc of
               None \<Rightarrow> Inl (KeyError ''account_holder_id'')
             | Some holder \<Rightarrow>
                 Inr (Some (Savings
                   \<lparr>account_number = num, account_holder_id = holder, balance = bal,
                    interest_rate = (case d_interest_rate acc of None \<Rightarrow> one_percent | Some r \<Rightarrow> r)\<rparr>))))
          else if acc_type = ''checking'' then
            (case d_account_number acc of
               None \<Rightarrow> Inl (KeyError ''account_number'')
             | Some num \<Rightarrow>
            (case d_account_holder_id acc of
               None \<Rightarrow> Inl (KeyError ''account_holder_id'')
             | Some holder \<Rightarrow>
                 Inr (Some (Checking
                   \<lparr>account_number = num, account_holder_id = holder, balance = bal,
                    overdraft_limit = (case d_overdraft_limit acc of None \<Rightarrow> fzero | Some l \<Rightarrow> l)\<rparr>))))
          else Inr None)"

fun load_accounts ::
  "account_dict list \<Rightarrow> (string \<times> account) list \<Rightarrow> error + (string \<times> account) list" where
  "load_accounts [] as = Inr as"
| "load_accounts (acc # account_data) as =
     (case load_account acc of
        Inl e \<Rightarrow> Inl e
      | Inr None \<Rightarrow> load_accounts account_data as
      | Inr (Some account) \<Rightarrow>
          load_accounts account_data (AList.update (acc_number account) account as))"

text \<open>
  Each \<^verbatim>\<open>try\<close> block: only \<^verbatim>\<open>FileNotFoundError\<close> is caught; every other exception
  leaves \<^verbatim>\<open>_load_data\<close>, and with it the constructor.
\<close>

definition try_customers ::
  "customer_dict json_file \<Rightarrow> (string \<times> Customer) list \<Rightarrow> error + (string \<times> Customer) list" where
  "try_customers f cs =
     (case f of
        FileNotFound \<Rightarrow> Inr cs
      | NoPermission \<Rightarrow> Inl PermissionError
      | NotJson \<Rightarrow> Inl JSONDecodeError
      | Records customer_data \<Rightarrow> load_customers customer_data cs)"

definition try_accounts ::
  "account_dict json_file \<Rightarrow> (string \<times> account) list \<Rightarrow> error + (string \<times> account) list" where
  "try_accounts f as =
     (case f of
        FileNotFound \<Rightarrow> Inr as
      | NoPermission \<Rightarrow> Inl PermissionError
      | NotJson \<Rightarrow> Inl JSONDecodeError
      | Records account_data \<Rightarrow> load_accounts account_data as)"

definition load_data :: "Bank \<Rightarrow> error + Bank" where
  "load_data self =
     (case try_customers (customer_file self) (customers self) of
        Inl e \<Rightarrow> Inl e
      | Inr cs \<Rightarrow>
     (case try_accounts (account_file self) (accounts self) of
        Inl e \<Rightarrow> Inl e
      | Inr as \<Rightarrow> Inr (self\<lparr>customers := cs, accounts := as\<rparr>)))"

definition Bank_init :: "customer_dict json_file \<Rightarrow> account_dict json_file \<Rightarrow> error + Bank" where
  "Bank_init cf af =
     load_data \<lparr>customers = [], accounts = [], customer_file = cf, account_file = af\<rparr>"

subsection \<open>Saving\<close>

definition save_data :: "Bank \<Rightarrow> Bank" where
  "save_data self =
     self\<lparr>customer_file := Records (map (\<lambda>(k, c). Customer_to_dict c) (customers self)),
          account_file := Records (map (\<lambda>(k, a). to_dict a) (accounts self))\<rparr>"

subsection \<open>Operations\<close>

definition add_customer :: "Bank \<Rightarrow> Customer \<Rightarrow> bool \<times> Bank" where
  "add_customer self customer =
     (if map_of (customers self) (customer_id customer) \<noteq> None then (False, self)
      else (True, save_data
              (self\<lparr>customers := AList.update (customer_id customer) customer (customers self)\<rparr>)))"

definition remove_customer :: "Bank \<Rightarrow> string \<Rightarrow> bool \<times> Bank" where
  "remove_customer self cid =
     (case map_of (customers self) cid of
        None \<Rightarrow> (False, self)
      | Some customer \<Rightarrow>
          if account_numbers customer = []
          then (True, save_data (self\<lparr>customers := AList.delete cid (customers self)\<rparr>))
          else (False, self))"

text \<open>
  \<^verbatim>\<open>create_account\<close> draws the account number from \<^verbatim>\<open>uuid.uuid4()\<close>; the model takes
  the drawn string as the argument \<open>uuid4\<close>. The keyword arguments are a map from the
  keyword to its value.
\<close>

definition create_account ::
  "Bank \<Rightarrow> string \<Rightarrow> string \<Rightarrow> string \<Rightarrow> float \<Rightarrow> (string \<rightharpoonup> float) \<Rightarrow> account option \<times> Bank" where
  "create_account self uuid4 cid account_type initial_balance kwargs =
     (case map_of (customers self) cid of
        None \<Rightarrow> (None, self)
      | Some customer \<Rightarrow>
          (case
             (if account_type = ''savings'' then
                Some (Savings
                  \<lparr>account_number = uuid4, account_holder_id = cid, balance = initial_balance,
                   interest_rate =
                     (case kwargs ''interest_rate'' of None \<Rightarrow> one_percent | Some r \<Rightarrow> r)\<rparr>)
              else if account_type = ''checking'' then
                Some (Checking
                  \<lparr>account_number = uuid4, account_holder_id = cid, balance = initial_balance,
                   overdraft_limit =
                     (case kwargs ''overdraft_limit'' of None \<Rightarrow> fzero | Some l \<Rightarrow> l)\<rparr>)
              else None)
           of
             None \<Rightarrow> (None, self)
           | Some account \<Rightarrow>
               (Some account,
                save_data
                  (self\<lparr>accounts := AList.update (acc_number account) account (accounts self),
                        customers :=
                          AList.update cid (add_account_number customer (acc_number account))
                            (customers self)\<rparr>))))"

text \<open>
  A method call on the account object registered under a number: the object is looked
  up, the method runs on it, and the object as the method leaves it is what the registry
  holds afterwards. Two look-ups of the same number give the same object, so a later call
  sees what an earlier one did.
\<close>

definition call_on ::
  "(account \<Rightarrow> bool \<times> account) \<Rightarrow> string \<Rightarrow> (string \<times> account) list
     \<Rightarrow> bool \<times> (string \<times> account) list" where
  "call_on method acc_num as =
     (case map_of as acc_num of
        None \<Rightarrow> (False, as)
      | Some account \<Rightarrow>
          (case method account of (r, account') \<Rightarrow> (r, AList.update acc_num account' as)))"

definition Bank_deposit :: "Bank \<Rightarrow> string \<Rightarrow> float \<Rightarrow> bool \<times> Bank" where
  "Bank_deposit self acc_num amount =
     (case call_on (\<lambda>a. deposit a amount) acc_num (accounts self) of
        (ok, as) \<Rightarrow>
          if ok then (True, save_data (self\<lparr>accounts := as\<rparr>))
          else (False, self\<lparr>accounts := as\<rparr>))"

definition Bank_withdraw :: "Bank \<Rightarrow> string \<Rightarrow> float \<Rightarrow> bool \<times> Bank" where
  "Bank_withdraw self acc_num amount =
     (case call_on (\<lambda>a. withdraw a amount) acc_num (accounts self) of
        (ok, as) \<Rightarrow>
          if ok then (True, save_data (self\<lparr>accounts := as\<rparr>))
          else (False, self\<lparr>accounts := as\<rparr>))"

definition transfer_funds :: "Bank \<Rightarrow> string \<Rightarrow> string \<Rightarrow> float \<Rightarrow> bool \<times> Bank" where
  "transfer_funds self from_acc_num to_acc_num amount =
     (if map_of (accounts self) from_acc_num = None \<or> map_of (accounts self) to_acc_num = None
      then (False, self)
      else
        (case call_on (\<lambda>a. withdraw a amount) from_acc_num (accounts self) of
           (withdrawn, as1) \<Rightarrow>
             if \<not> withdrawn then (False, self\<lparr>accounts := as1\<rparr>)
             else
               (case call_on (\<lambda>a. deposit a amount) to_acc_num as1 of
                  (deposited, as2) \<Rightarrow>
                    if deposited then (True, save_data (self\<lparr>accounts := as2\<rparr>))
                    else
                      (case call_on (\<lambda>a. deposit a amount) from_acc_num as2 of
                         (rolled_back, as3) \<Rightarrow> (False, self\<lparr>accounts := as3\<rparr>)))))"

fun apply_interest_each :: "(string \<times> account) list \<Rightarrow> (string \<times> account) list" where
  "apply_interest_each [] = []"
| "apply_interest_each ((k, Savings s) # as) = (k, Savings (apply_interest s)) # apply_interest_each as"
| "apply_interest_each ((k, Checking c) # as) = (k, Checking c) # apply_interest_each as"

definition apply_all_interest :: "Bank \<Rightarrow> Bank" where
  "apply_all_interest self = save_data (self\<lparr>accounts := apply_interest_each (accounts self)\<rparr>)"

text \<open>The balance of the account registered under a number, if there is one.\<close>

definition balance_of :: "Bank \<Rightarrow> string \<Rightarrow> float option" where
  "balance_of self acc_num = map_option acc_balance (map_of (accounts self) acc_num)"

subsection \<open>Representation invariant of the registries\<close>

text \<open>
  A registry is a dictionary: its keys are distinct. The bank files every customer under
  the customer's own id and every account under the account's own number, and a
  customer's list of account numbers only grows through \<^verbatim>\<open>add_account_number\<close>, so it
  has no duplicates.
\<close>

definition dict_wf :: "('v \<Rightarrow> string) \<Rightarrow> (string \<times> 'v) list \<Rightarrow> bool" where
  "dict_wf key d = (distinct (map fst d) \<and> (\<forall>(k, v) \<in> set d. k = key v))"

definition bank_wf :: "Bank \<Rightarrow> bool" where
  "bank_wf self =
     (dict_wf customer_id (customers self)
      \<and> (\<forall>(k, c) \<in> set (customers self). distinct (account_numbers c))
      \<and> dict_wf acc_number (accounts self))"

definition customers_wf :: "(string \<times> Customer) list \<Rightarrow> bool" where
  "customers_wf cs =
     (dict_wf customer_id cs \<and> (\<forall>(k, c) \<in> set cs. distinct (account_numbers c)))"

section \<open>Properties of binary64 arithmetic\<close>

text \<open>
  The facts about the arithmetic that the properties of the accounts rest on: the
  comparisons are comparisons of the values, every result of the arithmetic is a
  binary64 number, and rounding never takes an exact result below a binary64 number
  that it is not below.
\<close>

lemma two_powi_nat: "0 \<le> j \<Longrightarrow> (2::real) ^ nat j = 2 powi j"
  by (simp add: power_int_def)

lemma dyadic_shift: "0 \<le> j \<Longrightarrow> dyadic (m * 2 ^ nat j) (e - j) = dyadic m e"
proof -
  assume j: "0 \<le> j"
  have "(2::real) powi j * 2 powi (e - j) = 2 powi e"
    by (simp add: power_int_add [symmetric])
  with j show ?thesis
    by (simp add: dyadic_def two_powi_nat mult.assoc)
qed

lemma dyadic_align:
  "dyadic (m * 2 ^ nat (e - min e e')) (min e e') = dyadic m e"
  using dyadic_shift [of "e - min e e'" m e] by simp

lemma dyadic_le_iff: "e = e' \<Longrightarrow> (dyadic m e \<le> dyadic m' e') = (m \<le> m')"
  by (simp add: dyadic_def)

lemma dyadic_less_iff: "e = e' \<Longrightarrow> (dyadic m e < dyadic m' e') = (m < m')"
  by (simp add: dyadic_def)

lemma fle_Finite: "fle (Finite m1 e1) (Finite m2 e2) = (dyadic m1 e1 \<le> dyadic m2 e2)"
proof -
  have "(dyadic m1 e1 \<le> dyadic m2 e2) =
        (dyadic (m1 * 2 ^ nat (e1 - min e1 e2)) (min e1 e2)
           \<le> dyadic (m2 * 2 ^ nat (e2 - min e1 e2)) (min e1 e2))"
    using dyadic_align [of m1 e1 e2] dyadic_align [of m2 e2 e1] by (simp add: min.commute)
  then show ?thesis by (simp add: dyadic_le_iff)
qed

lemma flt_Finite: "flt (Finite m1 e1) (Finite m2 e2) = (dyadic m1 e1 < dyadic m2 e2)"
proof -
  have "(dyadic m1 e1 < dyadic m2 e2) =
        (dyadic (m1 * 2 ^ nat (e1 - min e1 e2)) (min e1 e2)
           < dyadic (m2 * 2 ^ nat (e2 - min e1 e2)) (min e1 e2))"
    using dyadic_align [of m1 e1 e2] dyadic_align [of m2 e2 e1] by (simp add: min.commute)
  then show ?thesis by (simp add: dyadic_less_iff)
qed

lemma dyadic_add:
  "dyadic (m1 * 2 ^ nat (e1 - min e1 e2) + m2 * 2 ^ nat (e2 - min e1 e2)) (min e1 e2)
     = dyadic m1 e1 + dyadic m2 e2"
proof -
  have "dyadic (m1 * 2 ^ nat (e1 - min e1 e2) + m2 * 2 ^ nat (e2 - min e1 e2)) (min e1 e2)
      = dyadic (m1 * 2 ^ nat (e1 - min e1 e2)) (min e1 e2)
        + dyadic (m2 * 2 ^ nat (e2 - min e1 e2)) (min e1 e2)"
    by (simp add: dyadic_def algebra_simps)
  then show ?thesis
    using dyadic_align [of m1 e1 e2] dyadic_align [of m2 e2 e1] by (simp add: min.commute)
qed

lemma fle_trans: "fle a b \<Longrightarrow> fle b c \<Longrightarrow> fle a c"
  by (cases a; cases b; cases c) (simp_all add: fle_Finite del: fle.simps(5))

lemma flt_not_fle: "flt a b \<Longrightarrow> \<not> fle b a"
  by (cases a; cases b) (simp_all add: fle_Finite flt_Finite del: fle.simps(5) flt.simps(5))

lemma rne_shift_ge: "n * 2 ^ k \<le> M \<Longrightarrow> n \<le> rne_shift M k"
proof (cases "k = 0")
  case True
  then show "n * 2 ^ k \<le> M \<Longrightarrow> n \<le> rne_shift M k" by (simp add: rne_shift_def)
next
  case False
  assume "n * 2 ^ k \<le> M"
  then have "n * 2 ^ k div 2 ^ k \<le> M div 2 ^ k" by (intro zdiv_mono1) simp_all
  then have "n \<le> M div 2 ^ k" by simp
  with False show "n \<le> rne_shift M k" by (simp add: rne_shift_def Let_def)
qed

lemma rne_shift_le: "M \<le> n * 2 ^ k \<Longrightarrow> rne_shift M k \<le> n"
proof (cases "k = 0")
  case True
  then show "M \<le> n * 2 ^ k \<Longrightarrow> rne_shift M k \<le> n" by (simp add: rne_shift_def)
next
  case False
  assume le: "M \<le> n * 2 ^ k"
  then have "M div 2 ^ k \<le> n * 2 ^ k div 2 ^ k" by (intro zdiv_mono1) simp_all
  then have q: "M div 2 ^ k \<le> n" by simp
  show "rne_shift M k \<le> n"
  proof (cases "M div 2 ^ k = n")
    case True
    from True have "n * 2 ^ k + M mod 2 ^ k = M"
      using div_mult_mod_eq [of M "2 ^ k"] by simp
    with le have "M mod 2 ^ k \<le> 0" by linarith
    moreover have "0 \<le> M mod (2::int) ^ k" by simp
    ultimately have "M mod 2 ^ k = 0" by linarith
    with True False show ?thesis by (simp add: rne_shift_def Let_def)
  next
    case False
    with q have "M div 2 ^ k + 1 \<le> n" by simp
    with q \<open>k \<noteq> 0\<close> show ?thesis by (simp add: rne_shift_def Let_def)
  qed
qed

lemma bitlen_abs_bounds:
  assumes "M \<noteq> 0"
  shows "2 ^ nat (bitlen \<bar>M\<bar> - 1) \<le> \<bar>M\<bar>" and "\<bar>M\<bar> < 2 ^ nat (bitlen \<bar>M\<bar>)"
    and "1 \<le> bitlen \<bar>M\<bar>"
proof -
  from assms have pos: "0 < \<bar>M\<bar>" by simp
  from bitlen_bounds [OF pos] show "2 ^ nat (bitlen \<bar>M\<bar> - 1) \<le> \<bar>M\<bar>"
    and "\<bar>M\<bar> < 2 ^ nat (bitlen \<bar>M\<bar>)" by simp_all
  from pos show "1 \<le> bitlen \<bar>M\<bar>"
    using bitlen_eq_zero_iff [of "\<bar>M\<bar>"] bitlen_nonneg [of "\<bar>M\<bar>"] by linarith
qed

lemma round_shift_ge: "bitlen \<bar>M\<bar> - 53 \<le> round_shift M e" "- 1074 - e \<le> round_shift M e"
  by (simp_all add: round_shift_def)

lemma round_mant_abs_le:
  assumes "M \<noteq> 0"
  shows "\<bar>round_mant M e\<bar> \<le> 2 ^ 53"
proof (cases "round_shift M e \<le> 0")
  case True
  let ?b = "bitlen \<bar>M\<bar>" and ?k = "round_shift M e"
  from bitlen_abs_bounds [OF assms] have lt: "\<bar>M\<bar> < 2 ^ nat ?b" and b1: "1 \<le> ?b" by simp_all
  from round_shift_ge(1) [of M e] True b1 have "nat ?b + nat (- ?k) \<le> 53" by linarith
  then have "(2::int) ^ (nat ?b + nat (- ?k)) \<le> 2 ^ 53" by (intro power_increasing) simp_all
  then have le: "(2::int) ^ nat ?b * 2 ^ nat (- ?k) \<le> 2 ^ 53" by (simp only: power_add)
  from lt have "\<bar>M\<bar> * 2 ^ nat (- ?k) < 2 ^ nat ?b * 2 ^ nat (- ?k)" by simp
  from this le have "\<bar>M\<bar> * 2 ^ nat (- ?k) < 2 ^ 53" by (rule less_le_trans)
  with True show ?thesis by (simp add: round_mant_def abs_mult)
next
  case False
  let ?b = "bitlen \<bar>M\<bar>" and ?k = "round_shift M e"
  from bitlen_abs_bounds [OF assms] have lt: "\<bar>M\<bar> < 2 ^ nat ?b" and b1: "1 \<le> ?b" by simp_all
  from round_shift_ge(1) [of M e] False b1 have "nat ?b \<le> 53 + nat ?k" by linarith
  then have "(2::int) ^ nat ?b \<le> 2 ^ (53 + nat ?k)" by (intro power_increasing) simp_all
  with lt have "\<bar>M\<bar> \<le> 2 ^ 53 * 2 ^ nat ?k" by (simp add: power_add)
  then have up: "M \<le> 2 ^ 53 * 2 ^ nat ?k" and lo: "(- (2 ^ 53)) * 2 ^ nat ?k \<le> M"
    by linarith+
  from up have "rne_shift M (nat ?k) \<le> 2 ^ 53" by (rule rne_shift_le)
  moreover from lo have "- (2 ^ 53) \<le> rne_shift M (nat ?k)" by (rule rne_shift_ge)
  ultimately show ?thesis using False by (simp add: round_mant_def)
qed

lemma round_mant_sign:
  shows "0 < M \<Longrightarrow> 0 \<le> round_mant M e" and "M < 0 \<Longrightarrow> round_mant M e \<le> 0"
proof -
  show "0 < M \<Longrightarrow> 0 \<le> round_mant M e"
    using rne_shift_ge [of 0 "nat (round_shift M e)" M] by (simp add: round_mant_def)
  show "M < 0 \<Longrightarrow> round_mant M e \<le> 0"
    using rne_shift_le [of M 0 "nat (round_shift M e)"]
    by (simp add: round_mant_def mult_le_0_iff)
qed

lemma round_mant_normal:
  assumes "M \<noteq> 0" and "- 1074 - e \<le> bitlen \<bar>M\<bar> - 53"
  shows "2 ^ 52 \<le> \<bar>round_mant M e\<bar>"
proof -
  let ?b = "bitlen \<bar>M\<bar>" and ?k = "round_shift M e"
  from assms(2) have k: "?k = ?b - 53" by (simp add: round_shift_def)
  from bitlen_abs_bounds [OF assms(1)] have ge: "2 ^ nat (?b - 1) \<le> \<bar>M\<bar>" and b1: "1 \<le> ?b"
    by simp_all
  show ?thesis
  proof (cases "?k \<le> 0")
    case True
    with k b1 have "nat (?b - 1) + nat (- ?k) = 52" by linarith
    then have "(2::int) ^ 52 = 2 ^ nat (?b - 1) * 2 ^ nat (- ?k)" by (simp flip: power_add)
    also from ge have "\<dots> \<le> \<bar>M\<bar> * 2 ^ nat (- ?k)" by simp
    finally show ?thesis using True by (simp add: round_mant_def abs_mult)
  next
    case False
    with k b1 have "nat (?b - 1) = 52 + nat ?k" by linarith
    with ge have big: "2 ^ 52 * 2 ^ nat ?k \<le> \<bar>M\<bar>" by (simp add: power_add)
    show ?thesis
    proof (cases "0 < M")
      case True
      with big have "2 ^ 52 * 2 ^ nat ?k \<le> M" by simp
      then have "2 ^ 52 \<le> rne_shift M (nat ?k)" by (rule rne_shift_ge)
      with False show ?thesis by (simp add: round_mant_def)
    next
      case False
      with big have "M \<le> (- (2 ^ 52)) * 2 ^ nat ?k" by simp
      then have "rne_shift M (nat ?k) \<le> - (2 ^ 52)" by (rule rne_shift_le)
      with \<open>\<not> ?k \<le> 0\<close> show ?thesis by (simp add: round_mant_def)
    qed
  qed
qed

lemma round_value_exact:
  "round_shift M e \<le> 0 \<Longrightarrow> dyadic (round_mant M e) (e + round_shift M e) = dyadic M e"
  using dyadic_shift [of "- round_shift M e" M e] by (simp add: round_mant_def)

lemma dyadic_halve: "even m \<Longrightarrow> dyadic (m div 2) (e + 1) = dyadic m e"
proof -
  assume "even m"
  then obtain n where "m = 2 * n" by (auto elim: evenE)
  then show ?thesis by (simp add: dyadic_def power_int_add)
qed

lemma dyadic_mono: "m \<le> m' \<Longrightarrow> dyadic m e \<le> dyadic m' e"
  by (simp add: dyadic_def)

lemma dyadic_pow2: "dyadic (2 ^ n) e = 2 powi (int n + e)"
  by (simp add: dyadic_def power_int_add flip: two_powi_nat)

lemma dyadic_abs: "\<bar>dyadic m e\<bar> = dyadic \<bar>m\<bar> e"
  by (simp add: dyadic_def abs_mult)

lemma dyadic_abs_less:
  "\<bar>m\<bar> < 2 ^ n \<Longrightarrow> int n + e \<le> j \<Longrightarrow> \<bar>dyadic m e\<bar> < 2 powi j"
proof -
  assume m: "\<bar>m\<bar> < 2 ^ n" and j: "int n + e \<le> j"
  from m have "dyadic \<bar>m\<bar> e < dyadic (2 ^ n) e" by (simp add: dyadic_less_iff)
  also have "\<dots> = 2 powi (int n + e)" by (rule dyadic_pow2)
  also from j have "\<dots> \<le> 2 powi j" by (intro power_int_increasing) simp_all
  finally show ?thesis by (simp add: dyadic_abs)
qed

lemma dyadic_abs_ge:
  "2 ^ n \<le> \<bar>m\<bar> \<Longrightarrow> j \<le> int n + e \<Longrightarrow> 2 powi j \<le> \<bar>dyadic m e\<bar>"
proof -
  assume m: "2 ^ n \<le> \<bar>m\<bar>" and j: "j \<le> int n + e"
  from j have "(2::real) powi j \<le> 2 powi (int n + e)" by (intro power_int_increasing) simp_all
  also have "\<dots> = dyadic (2 ^ n) e" by (rule dyadic_pow2 [symmetric])
  also from m have "\<dots> \<le> dyadic \<bar>m\<bar> e" by (simp add: dyadic_le_iff)
  finally show ?thesis by (simp add: dyadic_abs)
qed

lemma round_shift_normal:
  "- 1074 < e + round_shift M e \<Longrightarrow> - 1074 - e \<le> bitlen \<bar>M\<bar> - 53"
  by (simp add: round_shift_def max_def split: if_splits)

lemma round_value_lower:
  assumes M: "M \<noteq> 0" and my: "\<bar>my\<bar> < 2 ^ 53" and ey: "- 1074 \<le> ey"
    and le: "dyadic my ey \<le> dyadic M e"
  shows "dyadic my ey \<le> dyadic (round_mant M e) (e + round_shift M e)"
proof (cases "round_shift M e \<le> 0")
  case True
  with le show ?thesis by (simp add: round_value_exact)
next
  case False
  let ?k = "round_shift M e"
  let ?e1 = "e + ?k"
  let ?M1 = "round_mant M e"
  from False have M1: "?M1 = rne_shift M (nat ?k)" by (simp add: round_mant_def)
  show ?thesis
  proof (cases "?e1 \<le> ey")
    case True
    let ?n = "my * 2 ^ nat (ey - ?e1)"
    from True have y: "dyadic ?n ?e1 = dyadic my ey"
      using dyadic_shift [of "ey - ?e1" my ey] by simp
    from False have "dyadic (?n * 2 ^ nat ?k) e = dyadic ?n ?e1"
      using dyadic_shift [of ?k ?n ?e1] by simp
    with y le have "dyadic (?n * 2 ^ nat ?k) e \<le> dyadic M e" by simp
    then have "?n * 2 ^ nat ?k \<le> M" by (simp add: dyadic_le_iff)
    then have "?n \<le> rne_shift M (nat ?k)" by (rule rne_shift_ge)
    then have "dyadic ?n ?e1 \<le> dyadic (rne_shift M (nat ?k)) ?e1" by (rule dyadic_mono)
    with y M1 show ?thesis by simp
  next
    case far: False
    with ey have "- 1074 < ?e1" by simp
    then have normal: "- 1074 - e \<le> bitlen \<bar>M\<bar> - 53" by (rule round_shift_normal)
    then have k: "?k = bitlen \<bar>M\<bar> - 53" by (simp add: round_shift_def)
    from round_mant_normal [OF M normal] have big: "2 ^ 52 \<le> \<bar>?M1\<bar>" .
    from far have "int 53 + ey \<le> 52 + ?e1" by simp
    with my have ylt: "\<bar>dyadic my ey\<bar> < 2 powi (52 + ?e1)" by (rule dyadic_abs_less)
    show ?thesis
    proof (cases "0 < M")
      case True
      then have "0 \<le> ?M1" by (rule round_mant_sign)
      then have "dyadic ?M1 ?e1 = \<bar>dyadic ?M1 ?e1\<bar>" by (simp add: dyadic_def)
      moreover from big have "2 powi (52 + ?e1) \<le> \<bar>dyadic ?M1 ?e1\<bar>"
        by (rule dyadic_abs_ge) simp
      ultimately show ?thesis using ylt by linarith
    next
      case False
      with M have neg: "M < 0" by simp
      then have xneg: "dyadic M e < 0" by (simp add: dyadic_def mult_less_0_iff)
      from bitlen_abs_bounds [OF M] have "2 ^ nat (bitlen \<bar>M\<bar> - 1) \<le> \<bar>M\<bar>"
        and "1 \<le> bitlen \<bar>M\<bar>" by simp_all
      moreover from this(2) k have "52 + ?e1 \<le> int (nat (bitlen \<bar>M\<bar> - 1)) + e" by simp
      ultimately have "2 powi (52 + ?e1) \<le> \<bar>dyadic M e\<bar>" by (intro dyadic_abs_ge)
      with ylt xneg le show ?thesis by linarith
    qed
  qed
qed

lemma round_float_nonzero:
  assumes "M \<noteq> 0"
  shows "round_float M e =
     (if \<bar>round_mant M e\<bar> = 2 ^ 53
      then (if e + round_shift M e + 1 > 971 then (if M > 0 then PInf else NInf)
            else Finite (round_mant M e div 2) (e + round_shift M e + 1))
      else (if e + round_shift M e > 971 then (if M > 0 then PInf else NInf)
            else if round_mant M e = 0 then Finite 0 (- 1074)
            else Finite (round_mant M e) (e + round_shift M e)))"
  using assms by (auto simp add: round_float_def Let_def)

lemma is_binary64_round_float: "is_binary64 (round_float M e)"
proof (cases "M = 0")
  case True
  then show ?thesis by (simp add: round_float_def)
next
  case False
  let ?M1 = "round_mant M e" and ?e1 = "e + round_shift M e"
  from round_mant_abs_le [OF False] have le: "\<bar>?M1\<bar> \<le> 2 ^ 53" .
  from round_shift_ge(2) [of e M] have e1: "- 1074 \<le> ?e1" by simp
  show ?thesis
  proof (cases "\<bar>?M1\<bar> = 2 ^ 53")
    case True
    then have "?M1 = 2 ^ 53 \<or> ?M1 = - (2 ^ 53)" by linarith
    then have "\<bar>?M1 div 2\<bar> = 2 ^ 52" by auto
    with True e1 show ?thesis by (simp add: round_float_nonzero [OF False])
  next
    case ne: False
    with le have lt: "\<bar>?M1\<bar> < 2 ^ 53" by simp
    have "?e1 = - 1074" if "\<bar>?M1\<bar> < 2 ^ 52"
    proof (rule ccontr)
      assume "?e1 \<noteq> - 1074"
      with e1 have "- 1074 < ?e1" by simp
      then have "- 1074 - e \<le> bitlen \<bar>M\<bar> - 53" by (rule round_shift_normal)
      from round_mant_normal [OF False this] that show False by simp
    qed
    with ne lt e1 show ?thesis by (simp add: round_float_nonzero [OF False])
  qed
qed

lemma round_float_ge:
  assumes y: "is_binary64 (Finite my ey)" and le: "dyadic my ey \<le> dyadic M e"
  shows "fle (Finite my ey) (round_float M e)"
proof (cases "M = 0")
  case True
  with le show ?thesis by (simp add: round_float_def fle_Finite dyadic_def del: fle.simps(5))
next
  case False
  let ?M1 = "round_mant M e" and ?e1 = "e + round_shift M e"
  from y have my: "\<bar>my\<bar> < 2 ^ 53" and ey: "- 1074 \<le> ey" and ey': "ey \<le> 971" by simp_all
  from round_value_lower [OF False my ey le] have R: "dyadic my ey \<le> dyadic ?M1 ?e1" .
  have no_ninf: False if neg: "M < 0" and big: "2 ^ 52 \<le> \<bar>?M1\<bar>" and e1: "971 < ?e1"
  proof -
    from ey' have "int 53 + ey \<le> 1024" by simp
    with my have ylt: "\<bar>dyadic my ey\<bar> < 2 powi 1024" by (rule dyadic_abs_less)
    from e1 have "1024 \<le> int 52 + ?e1" by simp
    with big have "2 powi 1024 \<le> \<bar>dyadic ?M1 ?e1\<bar>" by (rule dyadic_abs_ge)
    moreover from neg have "?M1 \<le> 0" by (rule round_mant_sign)
    then have "dyadic ?M1 ?e1 \<le> 0" by (simp add: dyadic_def mult_le_0_iff)
    ultimately show False using ylt R by linarith
  qed
  show ?thesis
  proof (cases "\<bar>?M1\<bar> = 2 ^ 53")
    case True
    then have "?M1 = 2 ^ 53 \<or> ?M1 = - (2 ^ 53)" by linarith
    then have ev: "even ?M1" by auto
    show ?thesis
    proof (cases "971 < ?e1 + 1")
      case over: True
      show ?thesis
      proof (cases "0 < M")
        case True
        with over \<open>\<bar>?M1\<bar> = 2 ^ 53\<close> show ?thesis by (simp add: round_float_nonzero [OF False])
      next
        case nonpos: False
        with False have neg: "M < 0" by simp
        from over have "970 < ?e1" by simp
        have "dyadic (?M1 div 2) (?e1 + 1) = dyadic ?M1 ?e1" using ev by (rule dyadic_halve)
        from ey' have "int 53 + ey \<le> 1024" by simp
        with my have ylt: "\<bar>dyadic my ey\<bar> < 2 powi 1024" by (rule dyadic_abs_less)
        from over have "1024 \<le> int 53 + ?e1" by simp
        moreover from True have "2 ^ 53 \<le> \<bar>?M1\<bar>" by simp
        ultimately have "2 powi 1024 \<le> \<bar>dyadic ?M1 ?e1\<bar>" by (intro dyadic_abs_ge)
        moreover from neg have "?M1 \<le> 0" by (rule round_mant_sign)
        then have "dyadic ?M1 ?e1 \<le> 0" by (simp add: dyadic_def mult_le_0_iff)
        ultimately have False using ylt R by linarith
        then show ?thesis ..
      qed
    next
      case False
      from ev have "dyadic (?M1 div 2) (?e1 + 1) = dyadic ?M1 ?e1" by (rule dyadic_halve)
      with R False True show ?thesis
        by (simp add: round_float_nonzero [OF \<open>M \<noteq> 0\<close>] fle_Finite del: fle.simps(5))
    qed
  next
    case ne: False
    show ?thesis
    proof (cases "971 < ?e1")
      case over: True
      show ?thesis
      proof (cases "0 < M")
        case True
        with over ne show ?thesis by (simp add: round_float_nonzero [OF False])
      next
        case nonpos: False
        with False have neg: "M < 0" by simp
        from over have "- 1074 < ?e1" by simp
        then have "- 1074 - e \<le> bitlen \<bar>M\<bar> - 53" by (rule round_shift_normal)
        from round_mant_normal [OF False this] have "2 ^ 52 \<le> \<bar>?M1\<bar>" .
        with neg over have False by (intro no_ninf)
        then show ?thesis ..
      qed
    next
      case False
      with R ne show ?thesis
        by (auto simp add: round_float_nonzero [OF \<open>M \<noteq> 0\<close>] fle_Finite dyadic_def
            simp del: fle.simps(5))
    qed
  qed
qed

lemmas float_eval =
  round_float_def round_shift_def round_mant_def rne_shift_def float_of_int_def fsub_def
  fzero_def one_percent_def dyadic_def compute_bitlen Let_def

lemma is_binary64_fadd: "is_binary64 (fadd a b)"
  by (cases a; cases b) (simp_all add: is_binary64_round_float)

lemma is_binary64_fsub: "is_binary64 (fsub a b)"
  by (simp add: fsub_def is_binary64_fadd)

lemma is_binary64_fzero: "is_binary64 fzero"
  by (simp add: fzero_def)

lemma flt_fzero_cases:
  assumes "flt fzero b" and "b \<noteq> PInf"
  obtains mb eb where "b = Finite mb eb" and "0 < dyadic mb eb"
  using assms by (cases b) (simp_all add: fzero_def flt_Finite dyadic_def del: flt.simps(5))

lemma fadd_Finite:
  obtains M e where "fadd (Finite m1 e1) (Finite m2 e2) = round_float M e"
    and "dyadic M e = dyadic m1 e1 + dyadic m2 e2"
proof (cases "m1 = 0")
  case True
  then show ?thesis using that [of m2 e2] by (simp add: dyadic_def)
next
  case m1: False
  show ?thesis
  proof (cases "m2 = 0")
    case True
    with m1 show ?thesis using that [of m1 e1] by (simp add: dyadic_def)
  next
    case False
    with m1 show ?thesis
      using that [of "m1 * 2 ^ nat (e1 - min e1 e2) + m2 * 2 ^ nat (e2 - min e1 e2)" "min e1 e2"]
      by (simp add: dyadic_add)
  qed
qed

lemma fadd_positive_ge:
  assumes a: "is_binary64 a" and b: "flt fzero b" and fin: "b \<noteq> PInf" and nn: "fle a a"
  shows "fle a (fadd a b)"
proof -
  from b fin obtain mb eb where B: "b = Finite mb eb" and pos: "0 < dyadic mb eb"
    by (rule flt_fzero_cases)
  show ?thesis
  proof (cases a)
    case (Finite ma ea)
    obtain M e where r: "fadd (Finite ma ea) (Finite mb eb) = round_float M e"
      and v: "dyadic M e = dyadic ma ea + dyadic mb eb" by (rule fadd_Finite)
    from v pos have "dyadic ma ea \<le> dyadic M e" by simp
    with a Finite have "fle (Finite ma ea) (round_float M e)"
      by (intro round_float_ge) simp_all
    with Finite B r show ?thesis by (simp del: fadd.simps(5))
  next
    case PInf
    with B show ?thesis by simp
  next
    case NInf
    with B show ?thesis by simp
  next
    case NaN
    with nn show ?thesis by simp
  qed
qed

lemma fsub_le_nonneg:
  assumes b: "flt fzero b" and le: "fle b a" and fin: "b \<noteq> PInf"
  shows "fle fzero (fsub a b)"
proof -
  from b fin obtain mb eb where B: "b = Finite mb eb" and pos: "0 < dyadic mb eb"
    by (rule flt_fzero_cases)
  show ?thesis
  proof (cases a)
    case (Finite ma ea)
    obtain M e where r: "fadd (Finite ma ea) (Finite (- mb) eb) = round_float M e"
      and v: "dyadic M e = dyadic ma ea + dyadic (- mb) eb" by (rule fadd_Finite)
    from le Finite B have "dyadic mb eb \<le> dyadic ma ea"
      by (simp add: fle_Finite del: fle.simps(5))
    with v have "dyadic 0 (- 1074) \<le> dyadic M e" by (simp add: dyadic_def)
    then have "fle (Finite 0 (- 1074)) (round_float M e)"
      by (intro round_float_ge) simp_all
    with Finite B r show ?thesis by (simp add: fsub_def fzero_def del: fle.simps(5) fadd.simps(5))
  next
    case PInf
    with B show ?thesis by (simp add: fsub_def fzero_def)
  next
    case NInf
    with le B show ?thesis by simp
  next
    case NaN
    with le B show ?thesis by simp
  qed
qed

lemma fle_refl_of_fle: "fle a b \<Longrightarrow> fle b b"
  by (cases a; cases b) (simp_all add: fle_Finite del: fle.simps(5))

lemma do_call_floor:
  assumes ok: "balance_floor_ok a" and v: "is_binary64 (acc_balance a)"
    and fin: "call_amount c \<noteq> PInf"
  shows "balance_floor_ok (do_call a c) \<and> is_binary64 (acc_balance (do_call a c))"
proof (cases c)
  case (Deposit amount)
  show ?thesis
  proof (cases "flt fzero amount")
    case False
    with Deposit ok v show ?thesis
      by (cases a) (simp_all add: SavingsAccount_deposit_def CheckingAccount_deposit_def)
  next
    case True
    from ok have "fle (acc_balance a) (acc_balance a)"
      by (cases a) (auto dest: fle_refl_of_fle)
    with v True fin Deposit have up: "fle (acc_balance a) (fadd (acc_balance a) amount)"
      by (intro fadd_positive_ge) simp_all
    with True Deposit ok show ?thesis
      by (cases a)
        (auto simp add: SavingsAccount_deposit_def CheckingAccount_deposit_def
          is_binary64_fadd intro: fle_trans)
  qed
next
  case (Withdraw amount)
  show ?thesis
  proof (cases a)
    case (Savings s)
    with Withdraw ok v fin show ?thesis
      by (simp add: SavingsAccount_withdraw_def is_binary64_fsub fsub_le_nonneg)
  next
    case (Checking c')
    with Withdraw ok v show ?thesis
      by (simp add: CheckingAccount_withdraw_def is_binary64_fsub)
  qed
qed

text \<open>
  The literals: \<open>one_percent\<close> is a binary64 number within half a unit in the last
  place of \<open>1 / 100\<close>, and \<open>Finite 7205759403792794 (- 56)\<close>, the float of the literal
  \<open>0.1\<close>, is one within half a unit in the last place of \<open>1 / 10\<close>.
\<close>

lemma one_percent_nearest:
  "is_binary64 one_percent \<and> \<bar>dyadic 5764607523034235 (- 59) - 1 / 100\<bar> \<le> 2 powi (- 60)"
  by (simp add: one_percent_def dyadic_def)

lemma one_tenth_nearest:
  "is_binary64 (Finite 7205759403792794 (- 56))
   \<and> \<bar>dyadic 7205759403792794 (- 56) - 1 / 10\<bar> \<le> 2 powi (- 57)"
  by (simp add: dyadic_def)

text \<open>
  Some values of the arithmetic, as binary64 has them: \<open>0.1 + 0.2\<close> is
  \<open>0.30000000000000004\<close>; the largest finite number plus \<open>2 ^ 970\<close> overflows to
  \<open>inf\<close>, plus \<open>2 ^ 969\<close> it is itself; half of the smallest subnormal number is
  \<open>0.0\<close> and half of three times that number is twice it (ties go to the even
  mantissa); \<open>float(2 ^ 53 + 1)\<close> is \<open>2 ^ 53\<close>.
\<close>

lemma binary64_examples:
  "fadd (Finite 7205759403792794 (- 56)) (Finite 7205759403792794 (- 55))
     = Finite 5404319552844596 (- 54)"
  "fadd (Finite 9007199254740991 971) (Finite 4503599627370496 918) = PInf"
  "fadd (Finite 9007199254740991 971) (Finite 4503599627370496 917)
     = Finite 9007199254740991 971"
  "fmul (Finite 1 (- 1074)) (Finite 4503599627370496 (- 53)) = Finite 0 (- 1074)"
  "fmul (Finite 3 (- 1074)) (Finite 4503599627370496 (- 53)) = Finite 2 (- 1074)"
  "float_of_int 9007199254740993 = Finite 4503599627370496 1"
  by (simp_all add: float_eval)

section \<open>Properties of the account operations\<close>




text \<open>
  C4, as claimed, fails when the difference is rounded: withdrawing \<open>1\<close> from a savings
  balance of \<open>10 ^ 16\<close> succeeds and leaves the balance at \<open>10 ^ 16\<close>.
\<close>

theorem savings_withdraw_not_exact:
  "SavingsAccount_withdraw
     \<lparr>account_number = ''a'', account_holder_id = ''h'',
      balance = float_of_int 10000000000000000, interest_rate = one_percent\<rparr>
     (float_of_int 1)
   = (True,
      \<lparr>account_number = ''a'', account_holder_id = ''h'',
       balance = float_of_int 10000000000000000, interest_rate = one_percent\<rparr>)
   \<and> valof (float_of_int 1) = Some 1
   \<and> valof (float_of_int 10000000000000000) = Some 10000000000000000"
  by (simp add: float_eval SavingsAccount_withdraw_def)

text \<open>
  C4, amended. A savings withdrawal succeeds exactly when \<open>0 < amount \<le> balance\<close>. On
  success only the balance changes and it becomes the binary64 difference
  \<open>balance - amount\<close>, as the float subtraction computes it; in every other case (an
  amount \<open>\<le> 0\<close>, above the balance, or not a number) the call returns false and the
  account is unchanged.
\<close>

theorem savings_withdraw_policy:
  "fst (SavingsAccount_withdraw s amount) = (flt fzero amount \<and> fle amount (balance s))
   \<and> (fst (SavingsAccount_withdraw s amount) \<longrightarrow>
        snd (SavingsAccount_withdraw s amount) = s\<lparr>balance := fsub (balance s) amount\<rparr>)
   \<and> (\<not> flt fzero amount \<or> \<not> fle amount (balance s) \<longrightarrow>
        SavingsAccount_withdraw s amount = (False, s))
   \<and> withdraw (Savings s) amount =
        (fst (SavingsAccount_withdraw s amount), Savings (snd (SavingsAccount_withdraw s amount)))"
  by (simp add: SavingsAccount_withdraw_def)

theorem savings_withdraw_policy_witness:
  "fst (SavingsAccount_withdraw
          \<lparr>account_number = ''a'', account_holder_id = ''h'', balance = float_of_int 100,
           interest_rate = one_percent\<rparr> (float_of_int 30))
   \<and> balance (snd (SavingsAccount_withdraw
          \<lparr>account_number = ''a'', account_holder_id = ''h'', balance = float_of_int 100,
           interest_rate = one_percent\<rparr> (float_of_int 30))) = float_of_int 70
   \<and> SavingsAccount_withdraw
          \<lparr>account_number = ''a'', account_holder_id = ''h'', balance = float_of_int 100,
           interest_rate = one_percent\<rparr> (float_of_int (- 1))
       = (False, \<lparr>account_number = ''a'', account_holder_id = ''h'', balance = float_of_int 100,
           interest_rate = one_percent\<rparr>)
   \<and> SavingsAccount_withdraw
          \<lparr>account_number = ''a'', account_holder_id = ''h'', balance = float_of_int 100,
           interest_rate = one_percent\<rparr> (float_of_int 101)
       = (False, \<lparr>account_number = ''a'', account_holder_id = ''h'', balance = float_of_int 100,
           interest_rate = one_percent\<rparr>)
   \<and> SavingsAccount_withdraw
          \<lparr>account_number = ''a'', account_holder_id = ''h'', balance = float_of_int 100,
           interest_rate = one_percent\<rparr> NaN
       = (False, \<lparr>account_number = ''a'', account_holder_id = ''h'', balance = float_of_int 100,
           interest_rate = one_percent\<rparr>)"
  using
    savings_withdraw_policy
      [where amount = "float_of_int 30" and s = "\<lparr>account_number = ''a'', account_holder_id = ''h'', balance = float_of_int 100,
           interest_rate = one_percent\<rparr>"]
    savings_withdraw_policy
      [where amount = "float_of_int (- 1)" and s = "\<lparr>account_number = ''a'', account_holder_id = ''h'', balance = float_of_int 100,
           interest_rate = one_percent\<rparr>"]
    savings_withdraw_policy
      [where amount = "float_of_int 101" and s = "\<lparr>account_number = ''a'', account_holder_id = ''h'', balance = float_of_int 100,
           interest_rate = one_percent\<rparr>"]
    savings_withdraw_policy
      [where amount = "NaN" and s = "\<lparr>account_number = ''a'', account_holder_id = ''h'', balance = float_of_int 100,
           interest_rate = one_percent\<rparr>"]
  by (simp add: float_eval)

text \<open>
  C5, as claimed, fails for an infinite amount: a savings account at \<open>0.0\<close> accepts the
  deposit of \<open>inf\<close> and then the withdrawal of \<open>inf\<close>, which leaves the balance
  \<open>inf - inf\<close>, a NaN, and \<open>nan >= 0\<close> is false.
\<close>

theorem balance_floor_broken_by_inf:
  "balance_floor_ok
     (Savings \<lparr>account_number = ''a'', account_holder_id = ''h'', balance = float_of_int 0,
               interest_rate = one_percent\<rparr>)
   \<and> do_calls
       (Savings \<lparr>account_number = ''a'', account_holder_id = ''h'', balance = float_of_int 0,
                 interest_rate = one_percent\<rparr>)
       [Deposit PInf, Withdraw PInf]
     = Savings \<lparr>account_number = ''a'', account_holder_id = ''h'', balance = NaN,
                 interest_rate = one_percent\<rparr>
   \<and> \<not> balance_floor_ok
       (Savings \<lparr>account_number = ''a'', account_holder_id = ''h'', balance = NaN,
                 interest_rate = one_percent\<rparr>)"
  by (simp add: float_eval SavingsAccount_deposit_def SavingsAccount_withdraw_def)

text \<open>
  C5, amended. An account whose balance is a binary64 number within its variant's floor
  is still within it after any finite sequence of deposit and withdraw calls whose
  amounts are anything but \<open>+ inf\<close> (finite of either sign, \<open>- inf\<close> or NaN):
  \<open>balance \<ge> - overdraft_limit\<close> for a checking account, \<open>balance \<ge> 0\<close> for a savings
  account.
\<close>

theorem balance_floor_invariant:
  "balance_floor_ok a \<Longrightarrow> is_binary64 (acc_balance a) \<Longrightarrow>
   \<forall>c \<in> set cs. call_amount c \<noteq> PInf \<Longrightarrow>
   balance_floor_ok (do_calls a cs)"
proof (induction cs arbitrary: a)
  case Nil
  then show ?case by simp
next
  case (Cons c cs)
  from Cons.prems have "balance_floor_ok (do_call a c) \<and> is_binary64 (acc_balance (do_call a c))"
    by (intro do_call_floor) simp_all
  with Cons.prems(3) show ?case by (simp add: Cons.IH)
qed

theorem balance_floor_invariant_witness:
  "balance_floor_ok
       (do_calls
          (Checking \<lparr>account_number = ''a'', account_holder_id = ''h'',
             balance = float_of_int 50, overdraft_limit = float_of_int 20\<rparr>)
          [Withdraw (float_of_int 60), Withdraw (float_of_int 15), Deposit (float_of_int (- 3)),
           Withdraw NInf, Deposit NaN, Deposit (float_of_int 7)])"
proof -
  let ?a = "Checking \<lparr>account_number = ''a'', account_holder_id = ''h'',
             balance = float_of_int 50, overdraft_limit = float_of_int 20\<rparr>"
  let ?cs = "[Withdraw (float_of_int 60), Withdraw (float_of_int 15), Deposit (float_of_int (- 3)),
           Withdraw NInf, Deposit NaN, Deposit (float_of_int 7)]"
  have 1: "balance_floor_ok ?a" by (simp add: float_eval)
  have 2: "is_binary64 (acc_balance ?a)" by (simp add: float_eval)
  have 3: "\<forall>c \<in> set ?cs. call_amount c \<noteq> PInf" by (simp add: float_eval)
  from balance_floor_invariant [OF 1 2 3] show ?thesis .
qed

section \<open>Properties of the bank operations\<close>

subsection \<open>Method calls on registered accounts\<close>

lemma deposit_ok: "fst (deposit a amount) = flt fzero amount"
  by (cases a) (simp_all add: SavingsAccount_deposit_def CheckingAccount_deposit_def)

lemma deposit_balance:
  "acc_balance (snd (deposit a amount)) =
     (if flt fzero amount then fadd (acc_balance a) amount else acc_balance a)"
  by (cases a) (simp_all add: SavingsAccount_deposit_def CheckingAccount_deposit_def)

lemma withdraw_balance:
  "acc_balance (snd (withdraw a amount)) =
     (if fst (withdraw a amount) then fsub (acc_balance a) amount else acc_balance a)"
  by (cases a) (simp_all add: SavingsAccount_withdraw_def CheckingAccount_withdraw_def)

lemma deposit_failed: "\<not> flt fzero amount \<Longrightarrow> deposit a amount = (False, a)"
  by (cases a) (simp_all add: SavingsAccount_deposit_def CheckingAccount_deposit_def)

lemma withdraw_failed: "\<not> fst (withdraw a amount) \<Longrightarrow> snd (withdraw a amount) = a"
  by (cases a) (auto simp add: SavingsAccount_withdraw_def CheckingAccount_withdraw_def split: if_splits)

lemma call_on_Some:
  "map_of as k = Some a \<Longrightarrow>
   call_on m k as = (fst (m a), AList.update k (snd (m a)) as)"
  by (simp add: call_on_def split: prod.splits)

lemma call_on_alt:
  "call_on m k as =
     (case map_of as k of None \<Rightarrow> (False, as)
      | Some a \<Rightarrow> (fst (m a), AList.update k (snd (m a)) as))"
  by (simp add: call_on_def split: option.splits prod.splits)

subsection \<open>Transfers\<close>

lemma transfer_funds_unfold:
  assumes "map_of (accounts self) A = Some a" "map_of (accounts self) B = Some b" "A \<noteq> B"
  shows "transfer_funds self A B amount =
     (if \<not> fst (withdraw a amount)
      then (False, self\<lparr>accounts := AList.update A (snd (withdraw a amount)) (accounts self)\<rparr>)
      else if flt fzero amount then
        (True, save_data (self\<lparr>accounts := AList.update B (snd (deposit b amount))
                  (AList.update A (snd (withdraw a amount)) (accounts self))\<rparr>))
      else (False, self\<lparr>accounts :=
              AList.update A (snd (deposit (snd (withdraw a amount)) amount))
                (AList.update B (snd (deposit b amount))
                  (AList.update A (snd (withdraw a amount)) (accounts self)))\<rparr>))"
  using assms
  by (simp add: transfer_funds_def call_on_Some update_conv' deposit_ok)

text \<open>
  C2, as claimed, fails when the two results are rounded. A transfer of \<open>1\<close> from a
  balance of \<open>9007199254740994\<close> to a balance of \<open>1\<close> returns true and leaves the source
  at \<open>9007199254740992\<close>, which is not its prior balance minus the amount, and the
  destination at \<open>2\<close>: the sum of the two balances has changed, whether it is taken
  exactly or as the float sum.
\<close>

theorem transfer_sum_not_conserved:
  "fst (transfer_funds
     \<lparr>customers = [(''c1'', \<lparr>customer_id = ''c1'', name = ''n'', address = ''x'',
                     account_numbers = [''A'', ''B'']\<rparr>)],
      accounts =
        [(''A'', Savings \<lparr>account_number = ''A'', account_holder_id = ''c1'',
            balance = float_of_int 9007199254740994, interest_rate = one_percent\<rparr>),
         (''B'', Checking \<lparr>account_number = ''B'', account_holder_id = ''c1'',
            balance = float_of_int 1, overdraft_limit = float_of_int 0\<rparr>)],
      customer_file = FileNotFound, account_file = FileNotFound\<rparr>
     ''A'' ''B'' (float_of_int 1))
   \<and> balance_of (snd (transfer_funds
     \<lparr>customers = [(''c1'', \<lparr>customer_id = ''c1'', name = ''n'', address = ''x'',
                     account_numbers = [''A'', ''B'']\<rparr>)],
      accounts =
        [(''A'', Savings \<lparr>account_number = ''A'', account_holder_id = ''c1'',
            balance = float_of_int 9007199254740994, interest_rate = one_percent\<rparr>),
         (''B'', Checking \<lparr>account_number = ''B'', account_holder_id = ''c1'',
            balance = float_of_int 1, overdraft_limit = float_of_int 0\<rparr>)],
      customer_file = FileNotFound, account_file = FileNotFound\<rparr>
     ''A'' ''B'' (float_of_int 1))) ''A'' = Some (float_of_int 9007199254740992)
   \<and> balance_of (snd (transfer_funds
     \<lparr>customers = [(''c1'', \<lparr>customer_id = ''c1'', name = ''n'', address = ''x'',
                     account_numbers = [''A'', ''B'']\<rparr>)],
      accounts =
        [(''A'', Savings \<lparr>account_number = ''A'', account_holder_id = ''c1'',
            balance = float_of_int 9007199254740994, interest_rate = one_percent\<rparr>),
         (''B'', Checking \<lparr>account_number = ''B'', account_holder_id = ''c1'',
            balance = float_of_int 1, overdraft_limit = float_of_int 0\<rparr>)],
      customer_file = FileNotFound, account_file = FileNotFound\<rparr>
     ''A'' ''B'' (float_of_int 1))) ''B'' = Some (float_of_int 2)
   \<and> fadd (float_of_int 9007199254740992) (float_of_int 2)
       \<noteq> fadd (float_of_int 9007199254740994) (float_of_int 1)
   \<and> valof (float_of_int 9007199254740994) = Some 9007199254740994
   \<and> valof (float_of_int 9007199254740992) = Some 9007199254740992
   \<and> valof (float_of_int 1) = Some 1
   \<and> valof (float_of_int 2) = Some 2
   \<and> (9007199254740992 :: real) \<noteq> 9007199254740994 - 1
   \<and> (9007199254740992 :: real) + 2 \<noteq> 9007199254740994 + 1"
  by (simp add: float_eval transfer_funds_def call_on_def balance_of_def save_data_def
        SavingsAccount_withdraw_def CheckingAccount_deposit_def)

text \<open>
  C2, amended. For distinct registered accounts \<open>A\<close> and \<open>B\<close> and any amount, when
  \<^verbatim>\<open>transfer_funds(A, B, amount)\<close> returns true, the balance of \<open>A\<close> afterwards is the
  binary64 difference of its balance before and the amount, and the balance of \<open>B\<close> is
  the binary64 sum of its balance before and the amount, each as the float operation
  computes it; nothing is said of the sum of the two balances.
\<close>

theorem transfer_success:
  assumes "map_of (accounts self) A = Some a" and "map_of (accounts self) B = Some b"
    and "A \<noteq> B" and "fst (transfer_funds self A B amount)"
  shows "balance_of (snd (transfer_funds self A B amount)) A = Some (fsub (acc_balance a) amount)
       \<and> balance_of (snd (transfer_funds self A B amount)) B = Some (fadd (acc_balance b) amount)"
  using assms
  by (simp add: transfer_funds_unfold balance_of_def save_data_def update_conv'
        withdraw_balance deposit_balance split: if_splits)

theorem transfer_success_witness:
  "balance_of (snd (transfer_funds
     \<lparr>customers = [(''c1'', \<lparr>customer_id = ''c1'', name = ''n'', address = ''x'',
                     account_numbers = [''S'', ''K'']\<rparr>)],
      accounts =
        [(''S'', Savings \<lparr>account_number = ''S'', account_holder_id = ''c1'',
            balance = float_of_int 100, interest_rate = one_percent\<rparr>),
         (''K'', Checking \<lparr>account_number = ''K'', account_holder_id = ''c1'',
            balance = float_of_int 0, overdraft_limit = float_of_int 20\<rparr>)],
      customer_file = FileNotFound, account_file = FileNotFound\<rparr>
     ''S'' ''K'' (float_of_int 30))) ''S'' = Some (float_of_int 70)
   \<and> balance_of (snd (transfer_funds
     \<lparr>customers = [(''c1'', \<lparr>customer_id = ''c1'', name = ''n'', address = ''x'',
                     account_numbers = [''S'', ''K'']\<rparr>)],
      accounts =
        [(''S'', Savings \<lparr>account_number = ''S'', account_holder_id = ''c1'',
            balance = float_of_int 100, interest_rate = one_percent\<rparr>),
         (''K'', Checking \<lparr>account_number = ''K'', account_holder_id = ''c1'',
            balance = float_of_int 0, overdraft_limit = float_of_int 20\<rparr>)],
      customer_file = FileNotFound, account_file = FileNotFound\<rparr>
     ''S'' ''K'' (float_of_int 30))) ''K'' = Some (float_of_int 30)"
proof -
  let ?b = "\<lparr>customers = [(''c1'', \<lparr>customer_id = ''c1'', name = ''n'', address = ''x'',
                     account_numbers = [''S'', ''K'']\<rparr>)],
      accounts =
        [(''S'', Savings \<lparr>account_number = ''S'', account_holder_id = ''c1'',
            balance = float_of_int 100, interest_rate = one_percent\<rparr>),
         (''K'', Checking \<lparr>account_number = ''K'', account_holder_id = ''c1'',
            balance = float_of_int 0, overdraft_limit = float_of_int 20\<rparr>)],
      customer_file = FileNotFound, account_file = FileNotFound\<rparr>"
  have a: "map_of (accounts ?b) ''S'' = Some (Savings \<lparr>account_number = ''S'', account_holder_id = ''c1'',
            balance = float_of_int 100, interest_rate = one_percent\<rparr>)"
    by simp
  have b: "map_of (accounts ?b) ''K'' = Some (Checking \<lparr>account_number = ''K'', account_holder_id = ''c1'',
            balance = float_of_int 0, overdraft_limit = float_of_int 20\<rparr>)"
    by simp
  have ne: "''S'' \<noteq> ''K''" by simp
  have ok: "fst (transfer_funds ?b ''S'' ''K'' (float_of_int 30))"
    by (simp add: float_eval transfer_funds_def call_on_def SavingsAccount_withdraw_def
          CheckingAccount_deposit_def)
  from transfer_success [OF a b ne ok] show ?thesis by (simp add: float_eval)
qed




text \<open>
  A failed transfer of an amount \<open>> 0\<close> leaves the balance of the source as it was.
\<close>

lemma transfer_failure_positive:
  assumes "flt fzero amount" and "\<not> fst (transfer_funds self A B amount)"
  shows "balance_of (snd (transfer_funds self A B amount)) A = balance_of self A"
proof (cases "map_of (accounts self) A = None \<or> map_of (accounts self) B = None")
  case True
  then show ?thesis by (simp add: transfer_funds_def)
next
  case False
  then obtain a b where a: "map_of (accounts self) A = Some a"
    and b: "map_of (accounts self) B = Some b" by auto
  show ?thesis
  proof (cases "fst (withdraw a amount)")
    case False
    with a b show ?thesis
      by (simp add: transfer_funds_def call_on_alt balance_of_def update_conv' withdraw_failed)
  next
    case True
    with assms(1) a b have "fst (transfer_funds self A B amount)"
      by (simp add: transfer_funds_def call_on_alt update_conv' deposit_ok)
    with assms(2) show ?thesis by simp
  qed
qed

text \<open>
  C1. The claim is that the source balance is unchanged whenever \<^verbatim>\<open>transfer_funds\<close>
  returns false. A checking account accepts the withdrawal of a negative amount; the
  deposit into the destination then fails, and so does the deposit that was to undo the
  withdrawal, since it is of the same amount: the call returns false and the source
  keeps the balance the withdrawal gave it. Here the source goes from 0 to 5.
\<close>

theorem transfer_rollback_fails:
  "transfer_funds
     \<lparr>customers = [(''c1'', \<lparr>customer_id = ''c1'', name = ''n'', address = ''x'',
                     account_numbers = [''A'', ''B'']\<rparr>)],
      accounts =
        [(''A'', Checking \<lparr>account_number = ''A'', account_holder_id = ''c1'',
            balance = float_of_int 0, overdraft_limit = float_of_int 0\<rparr>),
         (''B'', Savings \<lparr>account_number = ''B'', account_holder_id = ''c1'',
            balance = float_of_int 0, interest_rate = one_percent\<rparr>)],
      customer_file = FileNotFound, account_file = FileNotFound\<rparr>
     ''A'' ''B'' (float_of_int (- 5))
   = (False,
      \<lparr>customers = [(''c1'', \<lparr>customer_id = ''c1'', name = ''n'', address = ''x'',
                     account_numbers = [''A'', ''B'']\<rparr>)],
      accounts =
        [(''A'', Checking \<lparr>account_number = ''A'', account_holder_id = ''c1'',
            balance = float_of_int 5, overdraft_limit = float_of_int 0\<rparr>),
         (''B'', Savings \<lparr>account_number = ''B'', account_holder_id = ''c1'',
            balance = float_of_int 0, interest_rate = one_percent\<rparr>)],
      customer_file = FileNotFound, account_file = FileNotFound\<rparr>)"
  by (simp add: float_eval transfer_funds_def call_on_def CheckingAccount_withdraw_def
        CheckingAccount_deposit_def SavingsAccount_deposit_def)

subsection \<open>Interest\<close>

lemma apply_interest_each_keys: "map fst (apply_interest_each as) = map fst as"
  by (induction as rule: apply_interest_each.induct) simp_all

lemma map_of_apply_interest_each:
  "map_of (apply_interest_each as) k =
     map_option (\<lambda>a. case a of Savings s \<Rightarrow> Savings (apply_interest s) | Checking c \<Rightarrow> Checking c)
       (map_of as k)"
  by (induction as rule: apply_interest_each.induct) simp_all

text \<open>
  C7, as claimed, fails when the results are rounded. A savings balance of \<open>100\<close> at the
  rate \<open>0.1\<close> becomes \<open>110\<close>, which is neither the exact product of the balance and
  \<open>1 + rate\<close> nor the float product \<^verbatim>\<open>balance * (1 + rate)\<close>.
\<close>

theorem apply_all_interest_not_product:
  "map_of (accounts (apply_all_interest
     \<lparr>customers = [(''c1'', \<lparr>customer_id = ''c1'', name = ''n'', address = ''x'',
                     account_numbers = [''S'', ''K'']\<rparr>)],
      accounts =
        [(''S'', Savings \<lparr>account_number = ''S'', account_holder_id = ''c1'',
            balance = float_of_int 100, interest_rate = (Finite 7205759403792794 (- 56))\<rparr>),
         (''K'', Checking \<lparr>account_number = ''K'', account_holder_id = ''c1'',
            balance = float_of_int 0, overdraft_limit = float_of_int 20\<rparr>)],
      customer_file = FileNotFound, account_file = FileNotFound\<rparr>)) ''S''
   = Some (Savings \<lparr>account_number = ''S'', account_holder_id = ''c1'',
            balance = float_of_int 110, interest_rate = (Finite 7205759403792794 (- 56))\<rparr>)
   \<and> fmul (float_of_int 100) (fadd (float_of_int 1) (Finite 7205759403792794 (- 56))) \<noteq> float_of_int 110
   \<and> valof (float_of_int 100) = Some 100
   \<and> valof (float_of_int 110) = Some 110
   \<and> valof (Finite 7205759403792794 (- 56)) = Some (7205759403792794 / 2 ^ 56)
   \<and> (100 :: real) * (1 + 7205759403792794 / 2 ^ 56) \<noteq> 110"
  by (simp add: float_eval apply_all_interest_def save_data_def apply_interest_def)

text \<open>
  C7, amended. \<^verbatim>\<open>apply_all_interest\<close> sets the balance of every savings account in the
  registry to the binary64 result of \<open>balance + balance * interest_rate\<close>, the product
  and then the sum as the float arithmetic computes them, leaves every checking account
  as it was, and changes no other field of any account, nor the keys of the registry,
  nor the customers.
\<close>

theorem apply_all_interest_spec:
  "(map_of (accounts self) k = Some (Savings s) \<longrightarrow>
      map_of (accounts (apply_all_interest self)) k =
        Some (Savings (s\<lparr>balance := fadd (balance s) (fmul (balance s) (interest_rate s))\<rparr>)))
   \<and> (map_of (accounts self) k = Some (Checking c) \<longrightarrow>
      map_of (accounts (apply_all_interest self)) k = Some (Checking c))
   \<and> (map_of (accounts self) k = None \<longrightarrow> map_of (accounts (apply_all_interest self)) k = None)
   \<and> map fst (accounts (apply_all_interest self)) = map fst (accounts self)
   \<and> customers (apply_all_interest self) = customers self"
  by (simp add: apply_all_interest_def save_data_def map_of_apply_interest_each
        apply_interest_each_keys apply_interest_def)

theorem apply_all_interest_spec_witness:
  "map_of (accounts (apply_all_interest
     \<lparr>customers = [(''c1'', \<lparr>customer_id = ''c1'', name = ''n'', address = ''x'',
                     account_numbers = [''S'', ''K'']\<rparr>)],
      accounts =
        [(''S'', Savings \<lparr>account_number = ''S'', account_holder_id = ''c1'',
            balance = float_of_int 100, interest_rate = one_percent\<rparr>),
         (''K'', Checking \<lparr>account_number = ''K'', account_holder_id = ''c1'',
            balance = float_of_int 0, overdraft_limit = float_of_int 20\<rparr>)],
      customer_file = FileNotFound, account_file = FileNotFound\<rparr>)) ''S''
   = Some (Savings \<lparr>account_number = ''S'', account_holder_id = ''c1'',
            balance = float_of_int 101, interest_rate = one_percent\<rparr>)
   \<and> map_of (accounts (apply_all_interest
     \<lparr>customers = [(''c1'', \<lparr>customer_id = ''c1'', name = ''n'', address = ''x'',
                     account_numbers = [''S'', ''K'']\<rparr>)],
      accounts =
        [(''S'', Savings \<lparr>account_number = ''S'', account_holder_id = ''c1'',
            balance = float_of_int 100, interest_rate = one_percent\<rparr>),
         (''K'', Checking \<lparr>account_number = ''K'', account_holder_id = ''c1'',
            balance = float_of_int 0, overdraft_limit = float_of_int 20\<rparr>)],
      customer_file = FileNotFound, account_file = FileNotFound\<rparr>)) ''K''
   = Some (Checking \<lparr>account_number = ''K'', account_holder_id = ''c1'',
            balance = float_of_int 0, overdraft_limit = float_of_int 20\<rparr>)"
  using
    apply_all_interest_spec
      [where k = "''S''" and s = "\<lparr>account_number = ''S'', account_holder_id = ''c1'',
            balance = float_of_int 100, interest_rate = one_percent\<rparr>" and self = "\<lparr>customers = [(''c1'', \<lparr>customer_id = ''c1'', name = ''n'', address = ''x'',
                     account_numbers = [''S'', ''K'']\<rparr>)],
      accounts =
        [(''S'', Savings \<lparr>account_number = ''S'', account_holder_id = ''c1'',
            balance = float_of_int 100, interest_rate = one_percent\<rparr>),
         (''K'', Checking \<lparr>account_number = ''K'', account_holder_id = ''c1'',
            balance = float_of_int 0, overdraft_limit = float_of_int 20\<rparr>)],
      customer_file = FileNotFound, account_file = FileNotFound\<rparr>"]
    apply_all_interest_spec
      [where k = "''K''" and c = "\<lparr>account_number = ''K'', account_holder_id = ''c1'',
            balance = float_of_int 0, overdraft_limit = float_of_int 20\<rparr>" and self = "\<lparr>customers = [(''c1'', \<lparr>customer_id = ''c1'', name = ''n'', address = ''x'',
                     account_numbers = [''S'', ''K'']\<rparr>)],
      accounts =
        [(''S'', Savings \<lparr>account_number = ''S'', account_holder_id = ''c1'',
            balance = float_of_int 100, interest_rate = one_percent\<rparr>),
         (''K'', Checking \<lparr>account_number = ''K'', account_holder_id = ''c1'',
            balance = float_of_int 0, overdraft_limit = float_of_int 20\<rparr>)],
      customer_file = FileNotFound, account_file = FileNotFound\<rparr>"]
  by (simp add: float_eval)

subsection \<open>Account creation\<close>

text \<open>
  C9. \<^verbatim>\<open>create_account\<close> does not look at the initial balance: for a registered
  customer and the type \<open>savings\<close> or \<open>checking\<close> it returns an account with exactly
  that balance and registers it under the new number, also when the balance is below
  the floor of the variant (a negative savings balance, a checking balance below
  \<open>- overdraft_limit\<close>).
\<close>

theorem create_account_any_balance:
  assumes "map_of (customers self) cid \<noteq> None"
    and "account_type = ''savings'' \<or> account_type = ''checking''"
  shows "\<exists>account.
           fst (create_account self uuid4 cid account_type initial_balance kwargs) = Some account
         \<and> acc_balance account = initial_balance
         \<and> acc_number account = uuid4
         \<and> acc_holder_id account = cid
         \<and> map_of (accounts (snd (create_account self uuid4 cid account_type initial_balance kwargs)))
               uuid4 = Some account
         \<and> (account_type = ''savings'' \<and> flt initial_balance fzero \<longrightarrow> \<not> balance_floor_ok account)
         \<and> (account_type = ''checking''
              \<and> flt initial_balance
                  (fneg (case kwargs ''overdraft_limit'' of None \<Rightarrow> fzero | Some l \<Rightarrow> l))
              \<longrightarrow> \<not> balance_floor_ok account)"
  using assms
  by (auto simp add: create_account_def save_data_def update_conv' flt_not_fle
      split: option.splits)

theorem create_account_any_balance_witness:
  "\<exists>account.
     fst (create_account
       \<lparr>customers = [(''c1'', \<lparr>customer_id = ''c1'', name = ''n'', address = ''x'',
                     account_numbers = [''S'', ''K'']\<rparr>)],
      accounts =
        [(''S'', Savings \<lparr>account_number = ''S'', account_holder_id = ''c1'',
            balance = float_of_int 100, interest_rate = one_percent\<rparr>),
         (''K'', Checking \<lparr>account_number = ''K'', account_holder_id = ''c1'',
            balance = float_of_int 0, overdraft_limit = float_of_int 20\<rparr>)],
      customer_file = FileNotFound, account_file = FileNotFound\<rparr>
       ''u'' ''c1'' ''savings'' (float_of_int (- 50)) Map.empty) = Some account
     \<and> acc_balance account = float_of_int (- 50) \<and> \<not> balance_floor_ok account"
proof -
  let ?b = "\<lparr>customers = [(''c1'', \<lparr>customer_id = ''c1'', name = ''n'', address = ''x'',
                     account_numbers = [''S'', ''K'']\<rparr>)],
      accounts =
        [(''S'', Savings \<lparr>account_number = ''S'', account_holder_id = ''c1'',
            balance = float_of_int 100, interest_rate = one_percent\<rparr>),
         (''K'', Checking \<lparr>account_number = ''K'', account_holder_id = ''c1'',
            balance = float_of_int 0, overdraft_limit = float_of_int 20\<rparr>)],
      customer_file = FileNotFound, account_file = FileNotFound\<rparr>"
  have c: "map_of (customers ?b) ''c1'' \<noteq> None" by simp
  have t: "''savings'' = ''savings'' \<or> ''savings'' = ''checking''" by simp
  have neg: "flt (float_of_int (- 50)) fzero" by (simp add: float_eval)
  from create_account_any_balance
         [OF c t, of "''u''" "float_of_int (- 50)" Map.empty]
    neg
  show ?thesis by auto
qed

subsection \<open>Persistence\<close>

lemma foldl_add_account_number:
  "distinct (account_numbers c @ xs) \<Longrightarrow>
   foldl add_account_number c xs = c\<lparr>account_numbers := account_numbers c @ xs\<rparr>"
  by (induction xs arbitrary: c) (simp_all add: add_account_number_def)

lemma load_customer_to_dict:
  "distinct (account_numbers c) \<Longrightarrow> load_customer (Customer_to_dict c) = Inr c"
  by (simp add: load_customer_def Customer_to_dict_def foldl_add_account_number)

lemma load_account_to_dict: "load_account (to_dict a) = Inr (Some a)"
  by (cases a) (simp_all add: load_account_def SavingsAccount_to_dict_def CheckingAccount_to_dict_def)

lemma update_fresh: "k \<notin> fst ` set al \<Longrightarrow> AList.update k v al = al @ [(k, v)]"
  by (induction al) auto

lemma load_customers_roundtrip:
  "distinct (map fst (cs0 @ cs)) \<Longrightarrow>
   \<forall>(k, c) \<in> set cs. k = customer_id c \<and> distinct (account_numbers c) \<Longrightarrow>
   load_customers (map (\<lambda>(k, c). Customer_to_dict c) cs) cs0 = Inr (cs0 @ cs)"
proof (induction cs arbitrary: cs0)
  case Nil
  then show ?case by simp
next
  case (Cons p cs)
  obtain k c where p: "p = (k, c)" by (cases p)
  from Cons.prems p have kc: "k = customer_id c" "distinct (account_numbers c)"
    and fresh: "k \<notin> fst ` set cs0" by auto
  from Cons.prems p have "distinct (map fst ((cs0 @ [(k, c)]) @ cs))" by auto
  moreover from Cons.prems have "\<forall>(k, c) \<in> set cs. k = customer_id c \<and> distinct (account_numbers c)"
    by simp
  ultimately have "load_customers (map (\<lambda>(k, c). Customer_to_dict c) cs) (cs0 @ [(k, c)])
      = Inr ((cs0 @ [(k, c)]) @ cs)"
    by (rule Cons.IH)
  with p kc fresh show ?case
    by (simp add: load_customer_to_dict update_fresh)
qed

lemma load_accounts_roundtrip:
  "distinct (map fst (as0 @ as)) \<Longrightarrow>
   \<forall>(k, a) \<in> set as. k = acc_number a \<Longrightarrow>
   load_accounts (map (\<lambda>(k, a). to_dict a) as) as0 = Inr (as0 @ as)"
proof (induction as arbitrary: as0)
  case Nil
  then show ?case by simp
next
  case (Cons p as)
  obtain k a where p: "p = (k, a)" by (cases p)
  from Cons.prems p have ka: "k = acc_number a" and fresh: "k \<notin> fst ` set as0" by auto
  from Cons.prems p have "distinct (map fst ((as0 @ [(k, a)]) @ as))" by auto
  moreover from Cons.prems have "\<forall>(k, a) \<in> set as. k = acc_number a" by simp
  ultimately have "load_accounts (map (\<lambda>(k, a). to_dict a) as) (as0 @ [(k, a)])
      = Inr ((as0 @ [(k, a)]) @ as)"
    by (rule Cons.IH)
  with p ka fresh show ?case
    by (simp add: load_account_to_dict update_fresh)
qed

text \<open>
  C6. Saving a bank and constructing a bank from the two files just written gives the
  saved bank back: the same customers in the same order with their ids, names,
  addresses and lists of account numbers, and the same accounts in the same order with
  their numbers, holder ids, balances, variant and variant parameter. Saving itself
  leaves both registries as they are. The hypothesis is the representation invariant
  of the registries.
\<close>

theorem save_load_roundtrip:
  assumes "bank_wf self"
  shows "Bank_init (customer_file (save_data self)) (account_file (save_data self))
           = Inr (save_data self)
       \<and> customers (save_data self) = customers self
       \<and> accounts (save_data self) = accounts self"
proof -
  from assms have "load_customers (map (\<lambda>(k, c). Customer_to_dict c) (customers self)) []
      = Inr ([] @ customers self)"
    by (intro load_customers_roundtrip) (auto simp add: bank_wf_def dict_wf_def)
  moreover from assms have "load_accounts (map (\<lambda>(k, a). to_dict a) (accounts self)) []
      = Inr ([] @ accounts self)"
    by (intro load_accounts_roundtrip) (auto simp add: bank_wf_def dict_wf_def)
  ultimately show ?thesis
    by (simp add: Bank_init_def load_data_def save_data_def try_customers_def try_accounts_def)
qed

theorem save_load_roundtrip_witness:
  "Bank_init
     (customer_file (save_data
       \<lparr>customers = [(''c1'', \<lparr>customer_id = ''c1'', name = ''n'', address = ''x'',
                     account_numbers = [''S'', ''K'']\<rparr>)],
      accounts =
        [(''S'', Savings \<lparr>account_number = ''S'', account_holder_id = ''c1'',
            balance = float_of_int 100, interest_rate = one_percent\<rparr>),
         (''K'', Checking \<lparr>account_number = ''K'', account_holder_id = ''c1'',
            balance = float_of_int 0, overdraft_limit = float_of_int 20\<rparr>)],
      customer_file = FileNotFound, account_file = FileNotFound\<rparr>))
     (account_file (save_data
       \<lparr>customers = [(''c1'', \<lparr>customer_id = ''c1'', name = ''n'', address = ''x'',
                     account_numbers = [''S'', ''K'']\<rparr>)],
      accounts =
        [(''S'', Savings \<lparr>account_number = ''S'', account_holder_id = ''c1'',
            balance = float_of_int 100, interest_rate = one_percent\<rparr>),
         (''K'', Checking \<lparr>account_number = ''K'', account_holder_id = ''c1'',
            balance = float_of_int 0, overdraft_limit = float_of_int 20\<rparr>)],
      customer_file = FileNotFound, account_file = FileNotFound\<rparr>))
   = Inr (save_data
       \<lparr>customers = [(''c1'', \<lparr>customer_id = ''c1'', name = ''n'', address = ''x'',
                     account_numbers = [''S'', ''K'']\<rparr>)],
      accounts =
        [(''S'', Savings \<lparr>account_number = ''S'', account_holder_id = ''c1'',
            balance = float_of_int 100, interest_rate = one_percent\<rparr>),
         (''K'', Checking \<lparr>account_number = ''K'', account_holder_id = ''c1'',
            balance = float_of_int 0, overdraft_limit = float_of_int 20\<rparr>)],
      customer_file = FileNotFound, account_file = FileNotFound\<rparr>)"
proof -
  let ?b = "\<lparr>customers = [(''c1'', \<lparr>customer_id = ''c1'', name = ''n'', address = ''x'',
                     account_numbers = [''S'', ''K'']\<rparr>)],
      accounts =
        [(''S'', Savings \<lparr>account_number = ''S'', account_holder_id = ''c1'',
            balance = float_of_int 100, interest_rate = one_percent\<rparr>),
         (''K'', Checking \<lparr>account_number = ''K'', account_holder_id = ''c1'',
            balance = float_of_int 0, overdraft_limit = float_of_int 20\<rparr>)],
      customer_file = FileNotFound, account_file = FileNotFound\<rparr>"
  have wf: "bank_wf ?b" by (simp add: bank_wf_def dict_wf_def)
  from save_load_roundtrip [OF wf] show ?thesis by simp
qed

text \<open>
  C8, as claimed, fails: a customers file whose content is not parseable makes the
  construction fail with \<^verbatim>\<open>JSONDecodeError\<close>; only \<^verbatim>\<open>FileNotFoundError\<close> is caught.
\<close>

theorem load_unparseable_fails:
  "Bank_init NotJson FileNotFound = Inl JSONDecodeError"
  by (simp add: Bank_init_def load_data_def try_customers_def)

text \<open>
  C8, amended. At construction, a store that is absent leaves its registry empty and
  does not make the construction fail: with both stores absent the bank starts empty,
  and with one store absent the construction succeeds or fails as the loading of the
  other store does. A store that exists but cannot be opened, or whose content is not
  parseable, makes the construction fail.
\<close>

theorem load_absent_store:
  "Bank_init FileNotFound FileNotFound =
     Inr \<lparr>customers = [], accounts = [], customer_file = FileNotFound, account_file = FileNotFound\<rparr>
   \<and> Bank_init FileNotFound af =
       (case try_accounts af [] of
          Inl e \<Rightarrow> Inl e
        | Inr as \<Rightarrow> Inr \<lparr>customers = [], accounts = as, customer_file = FileNotFound, account_file = af\<rparr>)
   \<and> Bank_init cf FileNotFound =
       (case try_customers cf [] of
          Inl e \<Rightarrow> Inl e
        | Inr cs \<Rightarrow> Inr \<lparr>customers = cs, accounts = [], customer_file = cf, account_file = FileNotFound\<rparr>)
   \<and> (cf = NoPermission \<or> cf = NotJson \<or> af = NoPermission \<or> af = NotJson
        \<longrightarrow> isl (Bank_init cf af))"
  by (auto simp add: Bank_init_def load_data_def try_customers_def try_accounts_def
      split: sum.splits json_file.splits)

theorem load_absent_store_witness:
  "isl (Bank_init NotJson (Records []))
   \<and> Bank_init FileNotFound (Records []) =
       Inr \<lparr>customers = [], accounts = [], customer_file = FileNotFound,
            account_file = Records []\<rparr>"
  using load_absent_store [of "Records []" NotJson]
  by (simp add: try_accounts_def)

section \<open>Every bank satisfies the representation invariant\<close>

text \<open>
  The invariant \<^const>\<open>bank_wf\<close> holds of every bank the constructor returns and is kept
  by every operation that changes the bank. A customer object handed to
  \<^verbatim>\<open>add_customer\<close> has a duplicate-free list of account numbers, since the list starts
  empty and grows only through \<^verbatim>\<open>add_account_number\<close>.
\<close>

lemma set_update_subset: "set (AList.update k v al) \<subseteq> insert (k, v) (set al)"
  by (induction al) auto

lemma dict_wf_update: "dict_wf key d \<Longrightarrow> key v = k \<Longrightarrow> dict_wf key (AList.update k v d)"
  using set_update_subset [of k v d]
  by (auto simp add: dict_wf_def distinct_update)

lemma set_delete_subset: "set (AList.delete k al) \<subseteq> set al"
  by (induction al) auto

lemma dict_wf_delete: "dict_wf key d \<Longrightarrow> dict_wf key (AList.delete k d)"
  using set_delete_subset [of k d]
  by (auto simp add: dict_wf_def distinct_delete)

lemma dict_wf_lookup: "dict_wf key d \<Longrightarrow> map_of d k = Some v \<Longrightarrow> key v = k"
  by (auto simp add: dict_wf_def dest: map_of_SomeD)

lemma add_account_number_distinct:
  "distinct (account_numbers c) \<Longrightarrow> distinct (account_numbers (add_account_number c n))"
  by (simp add: add_account_number_def)

lemma add_account_number_id [simp]: "customer_id (add_account_number c n) = customer_id c"
  by (simp add: add_account_number_def)

lemma foldl_add_account_number_distinct:
  "distinct (account_numbers c) \<Longrightarrow> distinct (account_numbers (foldl add_account_number c ns))"
  by (induction ns arbitrary: c) (simp_all add: add_account_number_distinct)

lemma load_customer_distinct:
  "load_customer cust = Inr c \<Longrightarrow> distinct (account_numbers c)"
  by (auto simp add: load_customer_def foldl_add_account_number_distinct split: option.splits)

lemma customers_wf_update:
  "customers_wf cs \<Longrightarrow> distinct (account_numbers c) \<Longrightarrow> customer_id c = k \<Longrightarrow>
   customers_wf (AList.update k c cs)"
  using set_update_subset [of k c cs]
  by (auto simp add: customers_wf_def dict_wf_update)

lemma customers_wf_delete: "customers_wf cs \<Longrightarrow> customers_wf (AList.delete k cs)"
  using set_delete_subset [of k cs]
  by (auto simp add: customers_wf_def dict_wf_delete)

lemma load_customers_wf:
  "customers_wf cs \<Longrightarrow> load_customers customer_data cs = Inr cs' \<Longrightarrow> customers_wf cs'"
proof (induction customer_data arbitrary: cs)
  case Nil
  then show ?case by simp
next
  case (Cons cust customer_data)
  from Cons.prems(2) obtain c where c: "load_customer cust = Inr c"
    and rest: "load_customers customer_data (AList.update (customer_id c) c cs) = Inr cs'"
    by (auto split: sum.splits)
  from Cons.prems(1) c have "customers_wf (AList.update (customer_id c) c cs)"
    by (simp add: customers_wf_update load_customer_distinct)
  with rest show ?case by (rule Cons.IH [rotated])
qed

lemma load_accounts_wf:
  "dict_wf acc_number as \<Longrightarrow> load_accounts account_data as = Inr as' \<Longrightarrow> dict_wf acc_number as'"
proof (induction account_data arbitrary: as)
  case Nil
  then show ?case by simp
next
  case (Cons acc account_data)
  show ?case
  proof (cases "load_account acc")
    case (Inl e)
    with Cons.prems(2) show ?thesis by simp
  next
    case (Inr r)
    show ?thesis
    proof (cases r)
      case None
      with Inr Cons.prems show ?thesis by (auto intro: Cons.IH)
    next
      case (Some account)
      with Inr Cons.prems(2)
      have rest: "load_accounts account_data (AList.update (acc_number account) account as) = Inr as'"
        by simp
      from Cons.prems(1) have "dict_wf acc_number (AList.update (acc_number account) account as)"
        by (simp add: dict_wf_update)
      with rest show ?thesis by (rule Cons.IH [rotated])
    qed
  qed
qed

lemma bank_wf_alt: "bank_wf self = (customers_wf (customers self) \<and> dict_wf acc_number (accounts self))"
  by (auto simp add: bank_wf_def customers_wf_def)

lemma Bank_init_wf: "Bank_init cf af = Inr self \<Longrightarrow> bank_wf self"
proof -
  assume a: "Bank_init cf af = Inr self"
  have e1: "customers_wf []" by (simp add: customers_wf_def dict_wf_def)
  have e2: "dict_wf acc_number []" by (simp add: dict_wf_def)
  from a obtain cs as where cs: "try_customers cf [] = Inr cs"
    and as: "try_accounts af [] = Inr as"
    and self: "customers self = cs" "accounts self = as"
    by (auto simp add: Bank_init_def load_data_def split: sum.splits)
  from cs e1 have "customers_wf cs"
    by (auto simp add: try_customers_def split: json_file.splits dest: load_customers_wf [rotated])
  moreover from as e2 have "dict_wf acc_number as"
    by (auto simp add: try_accounts_def split: json_file.splits dest: load_accounts_wf [rotated])
  ultimately show ?thesis using self by (simp add: bank_wf_alt)
qed

lemma save_data_registries [simp]:
  "customers (save_data self) = customers self" "accounts (save_data self) = accounts self"
  by (simp_all add: save_data_def)

lemma add_customer_wf:
  "bank_wf self \<Longrightarrow> distinct (account_numbers customer) \<Longrightarrow>
   bank_wf (snd (add_customer self customer))"
  by (simp add: add_customer_def bank_wf_alt customers_wf_update)

lemma remove_customer_wf: "bank_wf self \<Longrightarrow> bank_wf (snd (remove_customer self cid))"
  by (simp add: remove_customer_def bank_wf_alt customers_wf_delete split: option.splits)

lemma customers_wf_lookup:
  "customers_wf cs \<Longrightarrow> map_of cs k = Some c \<Longrightarrow> customer_id c = k \<and> distinct (account_numbers c)"
  by (auto simp add: customers_wf_def dict_wf_def dest: map_of_SomeD)

lemma create_account_wf:
  assumes "bank_wf self"
  shows "bank_wf (snd (create_account self uuid4 cid account_type initial_balance kwargs))"
proof (cases "map_of (customers self) cid")
  case None
  with assms show ?thesis by (simp add: create_account_def)
next
  case (Some customer)
  from assms have c: "customers_wf (customers self)" and a: "dict_wf acc_number (accounts self)"
    by (simp_all add: bank_wf_alt)
  from c Some have "customer_id customer = cid" "distinct (account_numbers customer)"
    by (simp_all add: customers_wf_lookup)
  then have c': "customers_wf (AList.update cid (add_account_number customer n) (customers self))"
    for n
    using c by (simp add: customers_wf_update add_account_number_distinct)
  from Some c a c' show ?thesis
    by (simp add: create_account_def bank_wf_alt dict_wf_update)
qed

lemma deposit_number [simp]: "acc_number (snd (deposit a amount)) = acc_number a"
  by (cases a) (simp_all add: SavingsAccount_deposit_def CheckingAccount_deposit_def)

lemma withdraw_number [simp]: "acc_number (snd (withdraw a amount)) = acc_number a"
  by (cases a) (simp_all add: SavingsAccount_withdraw_def CheckingAccount_withdraw_def)

lemma call_on_wf:
  "dict_wf acc_number as \<Longrightarrow> (\<And>a. acc_number (snd (m a)) = acc_number a) \<Longrightarrow>
   dict_wf acc_number (snd (call_on m k as))"
  by (auto simp add: call_on_alt dict_wf_update dict_wf_lookup split: option.splits)

lemma Bank_deposit_wf: "bank_wf self \<Longrightarrow> bank_wf (snd (Bank_deposit self k amount))"
  using call_on_wf [of "accounts self" "\<lambda>a. deposit a amount" k]
  by (simp add: Bank_deposit_def bank_wf_alt split_beta)

lemma Bank_withdraw_wf: "bank_wf self \<Longrightarrow> bank_wf (snd (Bank_withdraw self k amount))"
  using call_on_wf [of "accounts self" "\<lambda>a. withdraw a amount" k]
  by (simp add: Bank_withdraw_def bank_wf_alt split_beta)

lemma transfer_funds_wf:
  assumes "bank_wf self"
  shows "bank_wf (snd (transfer_funds self A B amount))"
proof -
  let ?w = "call_on (\<lambda>a. withdraw a amount) A (accounts self)"
  let ?d = "call_on (\<lambda>a. deposit a amount) B (snd ?w)"
  let ?r = "call_on (\<lambda>a. deposit a amount) A (snd ?d)"
  from assms have c: "customers_wf (customers self)" and a: "dict_wf acc_number (accounts self)"
    by (simp_all add: bank_wf_alt)
  from a have w: "dict_wf acc_number (snd ?w)" by (rule call_on_wf) simp
  then have d: "dict_wf acc_number (snd ?d)" by (rule call_on_wf) simp
  then have r: "dict_wf acc_number (snd ?r)" by (rule call_on_wf) simp
  from c a w d r show ?thesis
    by (simp add: transfer_funds_def bank_wf_alt split_beta)
qed

lemma apply_interest_each_wf:
  "dict_wf acc_number as \<Longrightarrow> dict_wf acc_number (apply_interest_each as)"
proof -
  have "(k, a) \<in> set (apply_interest_each as) \<Longrightarrow> \<exists>a'. (k, a') \<in> set as \<and> acc_number a' = acc_number a"
    for k a
    by (induction as rule: apply_interest_each.induct) (auto simp add: apply_interest_def)
  then show "dict_wf acc_number as \<Longrightarrow> dict_wf acc_number (apply_interest_each as)"
    by (fastforce simp add: dict_wf_def apply_interest_each_keys)
qed

lemma apply_all_interest_wf: "bank_wf self \<Longrightarrow> bank_wf (apply_all_interest self)"
  by (simp add: apply_all_interest_def bank_wf_alt apply_interest_each_wf)

end
